theory Spec2Isabelle
  imports Complex_Main
begin

section \<open>JavaScript values\<close>

text \<open>
  The facade in \<^verbatim>\<open>index.js\<close> inspects its arguments dynamically (\<^verbatim>\<open>typeof\<close>,
  truthiness, property reads), so arguments are values of one datatype. A \<^verbatim>\<open>Buffer\<close> is
  its byte sequence, an object literal is the list of its properties, a string is its
  sequence of code units (ASCII in every example). A finite number is a rational (every
  binary64 value is one), \<^verbatim>\<open>NaN\<close> and the two infinities are values of their own.
  Functions as values are not modelled.
\<close>

type_synonym bytes = "nat list"

datatype js_value =
    Undefined
  | Null
  | JBool bool
  | JNum rat
  | JNaN
  | JInf bool
  | JStr string
  | JBuf bytes
  | JObj "(string \<times> js_value) list"

text \<open>\<^verbatim>\<open>typeof v\<close>; \<^verbatim>\<open>typeof null\<close> is \<^verbatim>\<open>'object'\<close>, and so is a Buffer's.\<close>

fun typeof :: "js_value \<Rightarrow> string" where
  "typeof Undefined = ''undefined''"
| "typeof Null = ''object''"
| "typeof (JBool b) = ''boolean''"
| "typeof (JNum n) = ''number''"
| "typeof JNaN = ''number''"
| "typeof (JInf b) = ''number''"
| "typeof (JStr s) = ''string''"
| "typeof (JBuf b) = ''object''"
| "typeof (JObj ps) = ''object''"

text \<open>Truthiness, as \<^verbatim>\<open>v ? a : b\<close> and \<^verbatim>\<open>v || d\<close> test it.\<close>

fun truthy :: "js_value \<Rightarrow> bool" where
  "truthy Undefined = False"
| "truthy Null = False"
| "truthy (JBool b) = b"
| "truthy (JNum n) = (n \<noteq> 0)"
| "truthy JNaN = False"
| "truthy (JInf b) = True"
| "truthy (JStr s) = (s \<noteq> [])"
| "truthy (JBuf b) = True"
| "truthy (JObj ps) = True"

text \<open>
  The value of the property \<open>k\<close> of a value that has properties, for the property
  names the facade reads (\<^verbatim>\<open>width\<close>, \<^verbatim>\<open>height\<close>, \<^verbatim>\<open>format\<close>, \<^verbatim>\<open>id\<close>): the
  property's value on an object that has it (an object is the association list of its
  properties, each name once), \<^verbatim>\<open>undefined\<close> on one that has not, a Buffer included.
  The read itself is \<open>read_prop\<close> below, which throws where there are no properties.
\<close>

fun get_prop :: "js_value \<Rightarrow> string \<Rightarrow> js_value" where
  "get_prop (JObj ps) k = (case map_of ps k of Some v \<Rightarrow> v | None \<Rightarrow> Undefined)"
| "get_prop v k = Undefined"

text \<open>\<^verbatim>\<open>arguments[i]\<close> of a call: a parameter without an argument is \<^verbatim>\<open>undefined\<close>.\<close>

definition arg :: "nat \<Rightarrow> js_value list \<Rightarrow> js_value" where
  "arg i args = (if i < length args then args ! i else Undefined)"

text \<open>
  \<^verbatim>\<open>Buffer.from(s)\<close>: the bytes of the string, one for each character. This is the
  UTF-8 encoding that \<^verbatim>\<open>Buffer.from\<close> produces for ASCII strings only.
\<close>

definition Buffer_from :: "string \<Rightarrow> bytes" where
  "Buffer_from s = map of_char s"

text \<open>
  \<^verbatim>\<open>String.prototype.toLowerCase\<close> on ASCII strings: the letters \<^verbatim>\<open>A\<close> to
  \<^verbatim>\<open>Z\<close> are folded, every other character is kept (cased letters outside ASCII are
  not folded here).
\<close>

definition lower_char :: "char \<Rightarrow> char" where
  "lower_char c =
     (case map_of (zip ''ABCDEFGHIJKLMNOPQRSTUVWXYZ'' ''abcdefghijklmnopqrstuvwxyz'') c of
        Some l \<Rightarrow> l
      | None \<Rightarrow> c)"

definition toLowerCase :: "string \<Rightarrow> string" where
  "toLowerCase s = map lower_char s"

section \<open>Errors\<close>

text \<open>
  A thrown exception is a value: \<^verbatim>\<open>TypeError(message)\<close> or \<^verbatim>\<open>Error(message)\<close>.
  Whatever the native binding throws is one of these as well.
\<close>

datatype error = TypeError string | Error string

fun message :: "error \<Rightarrow> string" where
  "message (TypeError m) = m"
| "message (Error m) = m"

text \<open>
  A property read as JavaScript evaluates it: on \<^verbatim>\<open>undefined\<close> and on \<^verbatim>\<open>null\<close> it
  throws a TypeError, on every other value it is \<open>get_prop\<close>.
\<close>

fun read_prop :: "js_value \<Rightarrow> string \<Rightarrow> error + js_value" where
  "read_prop Undefined k = Inl (TypeError ''Cannot read properties of undefined'')"
| "read_prop Null k = Inl (TypeError ''Cannot read properties of null'')"
| "read_prop v k = Inr (get_prop v k)"

section \<open>The engine\<close>

text \<open>
  \<^verbatim>\<open>binding.Rsvg\<close> is the native rendering engine, outside \<^verbatim>\<open>index.js\<close>. It is a
  parameter of every definition below: a record of its methods over the engine's own
  state \<open>'s\<close> of one handle. Reading methods are functions of that state; \<^verbatim>\<open>render\<close> and
  the setters may change it, and every method that can throw returns a sum.
\<close>

record render_result =
  img_data :: bytes
  img_format :: string
  img_width :: int
  img_height :: int

record area =
  area_x :: js_value
  area_y :: js_value
  area_width :: js_value
  area_height :: js_value

record 's engine =
  eng_new :: "bytes \<Rightarrow> error + 's"
  eng_close :: "'s \<Rightarrow> error + 's"
  eng_getBaseURI :: "'s \<Rightarrow> js_value"
  eng_setBaseURI :: "js_value \<Rightarrow> 's \<Rightarrow> error + 's"
  eng_getDPIX :: "'s \<Rightarrow> js_value"
  eng_setDPIX :: "js_value \<Rightarrow> 's \<Rightarrow> error + 's"
  eng_getDPIY :: "'s \<Rightarrow> js_value"
  eng_setDPIY :: "js_value \<Rightarrow> 's \<Rightarrow> error + 's"
  eng_getWidth :: "'s \<Rightarrow> int"
  eng_getHeight :: "'s \<Rightarrow> int"
  eng_getDPI :: "'s \<Rightarrow> js_value"
  eng_setDPI :: "js_value \<Rightarrow> js_value \<Rightarrow> 's \<Rightarrow> error + 's"
  eng_dimensions :: "js_value \<Rightarrow> 's \<Rightarrow> error + js_value"
  eng_hasElement :: "js_value \<Rightarrow> 's \<Rightarrow> error + js_value"
  eng_autocrop :: "'s \<Rightarrow> error + area"
  eng_render :: "js_value \<Rightarrow> js_value \<Rightarrow> js_value \<Rightarrow> js_value \<Rightarrow> 's \<Rightarrow> (error + render_result) \<times> 's"

text \<open>
  Every call of an engine method is recorded, oldest first, next to the handle: the
  record of calls is what "the engine is called once", "no parse is attempted" and "the
  release step is performed" are stated about.
\<close>

datatype call =
    CNew bytes
  | CClose
  | CGetBaseURI
  | CSetBaseURI js_value
  | CGetDPIX
  | CSetDPIX js_value
  | CGetDPIY
  | CSetDPIY js_value
  | CGetWidth
  | CGetHeight
  | CGetDPI
  | CSetDPI js_value js_value
  | CDimensions js_value
  | CHasElement js_value
  | CAutocrop
  | CRender js_value js_value js_value js_value

record 's state =
  handle :: 's
  calls :: "call list"

definition logged :: "call \<Rightarrow> 's state \<Rightarrow> 's state" where
  "logged c st = st\<lparr>calls := calls st @ [c]\<rparr>"

text \<open>A reading method: its value, and the call recorded.\<close>

definition call_read :: "call \<Rightarrow> ('s \<Rightarrow> 'a) \<Rightarrow> 's state \<Rightarrow> 'a \<times> 's state" where
  "call_read c f st = (f (handle st), logged c st)"

text \<open>A setter: the handle changes unless the engine throws.\<close>

definition call_write :: "call \<Rightarrow> ('s \<Rightarrow> error + 's) \<Rightarrow> 's state \<Rightarrow> (error + unit) \<times> 's state" where
  "call_write c f st =
     (case f (handle st) of
        Inl e \<Rightarrow> (Inl e, logged c st)
      | Inr h \<Rightarrow> (Inr (), logged c (st\<lparr>handle := h\<rparr>)))"

text \<open>\<^verbatim>\<open>this._handle.render(width, height, format, id)\<close>.\<close>

definition call_render ::
  "'s engine \<Rightarrow> js_value \<Rightarrow> js_value \<Rightarrow> js_value \<Rightarrow> js_value \<Rightarrow> 's state
     \<Rightarrow> (error + render_result) \<times> 's state" where
  "call_render eng w h f i st =
     (case eng_render eng w h f i (handle st) of
        (r, s) \<Rightarrow> (r, logged (CRender w h f i) (st\<lparr>handle := s\<rparr>)))"

section \<open>The class Rsvg\<close>

subsection \<open>Constructor\<close>

text \<open>
  \<^verbatim>\<open>new Rsvg(buffer)\<close>, given the calls recorded so far: the handle of the new object or
  the exception thrown, and the calls recorded after it. The \<^verbatim>\<open>try\<close> block covers
  both the engine's constructor and \<^verbatim>\<open>close()\<close>.
\<close>

definition load_failure :: "error \<Rightarrow> error" where
  "load_failure e = Error (''Rsvg load failure: '' @ message e)"

fun Buffer_isBuffer :: "js_value \<Rightarrow> bool" where
  "Buffer_isBuffer (JBuf b) = True"
| "Buffer_isBuffer v = False"

text \<open>The characters of a string value and the bytes of a Buffer (empty for other values).\<close>

fun string_of :: "js_value \<Rightarrow> string" where
  "string_of (JStr s) = s"
| "string_of v = []"

fun bytes_of :: "js_value \<Rightarrow> bytes" where
  "bytes_of (JBuf b) = b"
| "bytes_of v = []"

definition Rsvg_constructor :: "'s engine \<Rightarrow> js_value \<Rightarrow> call list \<Rightarrow> (error + 's) \<times> call list" where
  "Rsvg_constructor eng buffer0 trace =
     (let buffer = (if typeof buffer0 = ''string'' then JBuf (Buffer_from (string_of buffer0))
                    else buffer0)
      in if \<not> Buffer_isBuffer buffer
         then (Inl (TypeError ''buffer should be a Buffer instance or a string''), trace)
         else
           (case eng_new eng (bytes_of buffer) of
              Inl e \<Rightarrow> (Inl (load_failure e), trace @ [CNew (bytes_of buffer)])
            | Inr h0 \<Rightarrow>
                (case eng_close eng h0 of
                   Inl e \<Rightarrow> (Inl (load_failure e), trace @ [CNew (bytes_of buffer), CClose])
                 | Inr h \<Rightarrow> (Inr h, trace @ [CNew (bytes_of buffer), CClose]))))"

subsection \<open>Properties and queries\<close>

text \<open>Each accessor and query is one call of the engine method of the same name.\<close>

definition baseURI_get :: "'s engine \<Rightarrow> 's state \<Rightarrow> js_value \<times> 's state" where
  "baseURI_get eng st = call_read CGetBaseURI (eng_getBaseURI eng) st"

definition baseURI_set :: "'s engine \<Rightarrow> js_value \<Rightarrow> 's state \<Rightarrow> (error + unit) \<times> 's state" where
  "baseURI_set eng v st = call_write (CSetBaseURI v) (eng_setBaseURI eng v) st"

definition dpiX_get :: "'s engine \<Rightarrow> 's state \<Rightarrow> js_value \<times> 's state" where
  "dpiX_get eng st = call_read CGetDPIX (eng_getDPIX eng) st"

definition dpiX_set :: "'s engine \<Rightarrow> js_value \<Rightarrow> 's state \<Rightarrow> (error + unit) \<times> 's state" where
  "dpiX_set eng v st = call_write (CSetDPIX v) (eng_setDPIX eng v) st"

definition dpiY_get :: "'s engine \<Rightarrow> 's state \<Rightarrow> js_value \<times> 's state" where
  "dpiY_get eng st = call_read CGetDPIY (eng_getDPIY eng) st"

definition dpiY_set :: "'s engine \<Rightarrow> js_value \<Rightarrow> 's state \<Rightarrow> (error + unit) \<times> 's state" where
  "dpiY_set eng v st = call_write (CSetDPIY v) (eng_setDPIY eng v) st"

definition width_get :: "'s engine \<Rightarrow> 's state \<Rightarrow> int \<times> 's state" where
  "width_get eng st = call_read CGetWidth (eng_getWidth eng) st"

definition height_get :: "'s engine \<Rightarrow> 's state \<Rightarrow> int \<times> 's state" where
  "height_get eng st = call_read CGetHeight (eng_getHeight eng) st"

definition getDPI :: "'s engine \<Rightarrow> 's state \<Rightarrow> js_value \<times> 's state" where
  "getDPI eng st = call_read CGetDPI (eng_getDPI eng) st"

definition setDPI :: "'s engine \<Rightarrow> js_value \<Rightarrow> js_value \<Rightarrow> 's state \<Rightarrow> (error + unit) \<times> 's state" where
  "setDPI eng x y st = call_write (CSetDPI x y) (eng_setDPI eng x y) st"

definition dimensions :: "'s engine \<Rightarrow> js_value \<Rightarrow> 's state \<Rightarrow> (error + js_value) \<times> 's state" where
  "dimensions eng i st = call_read (CDimensions i) (eng_dimensions eng i) st"

definition hasElement :: "'s engine \<Rightarrow> js_value \<Rightarrow> 's state \<Rightarrow> (error + js_value) \<times> 's state" where
  "hasElement eng i st = call_read (CHasElement i) (eng_hasElement eng i) st"





text \<open>
  \<^verbatim>\<open>autocrop()\<close>. The expression \<^verbatim>\<open>v.toFixed(3) * 1\<close> is the parameter
  \<open>fix3\<close>, applied to the four fields in the order of the source; the program's is
  \<open>toFixed3_times1\<close>.
\<close>

definition autocrop ::
  "(js_value \<Rightarrow> error + js_value) \<Rightarrow> 's engine \<Rightarrow> 's state \<Rightarrow> (error + area) \<times> 's state" where
  "autocrop fix3 eng st =
     (case call_read CAutocrop (eng_autocrop eng) st of
        (Inl e, st1) \<Rightarrow> (Inl e, st1)
      | (Inr a, st1) \<Rightarrow>
          (case fix3 (area_x a) of Inl e \<Rightarrow> (Inl e, st1) | Inr x \<Rightarrow>
          (case fix3 (area_y a) of Inl e \<Rightarrow> (Inl e, st1) | Inr y \<Rightarrow>
          (case fix3 (area_width a) of Inl e \<Rightarrow> (Inl e, st1) | Inr w \<Rightarrow>
          (case fix3 (area_height a) of Inl e \<Rightarrow> (Inl e, st1) | Inr h \<Rightarrow>
             (Inr \<lparr>area_x = x, area_y = y, area_width = w, area_height = h\<rparr>, st1))))))"

text \<open>
  \<^verbatim>\<open>toString()\<close>; \<^verbatim>\<open>util.inspect\<close> is the parameter \<open>inspect\<close>. \<^verbatim>\<open>this.baseURI\<close> is
  read once for the test and once more for the value.
\<close>

definition toString ::
  "((string \<times> js_value) list \<Rightarrow> string) \<Rightarrow> 's engine \<Rightarrow> 's state \<Rightarrow> string \<times> 's state" where
  "toString inspect eng st =
     (case width_get eng st of (w, st1) \<Rightarrow>
      case height_get eng st1 of (h, st2) \<Rightarrow>
      let data = [(''width'', JNum (of_int w)), (''height'', JNum (of_int h))] in
      case baseURI_get eng st2 of (b, st3) \<Rightarrow>
        if truthy b then
          (case baseURI_get eng st3 of (b', st4) \<Rightarrow>
             (''{ [Rsvg]'' @ drop 1 (inspect (data @ [(''baseURI'', b')])), st4))
        else (''{ [Rsvg]'' @ drop 1 (inspect data), st3))"

subsection \<open>Rendering\<close>

text \<open>
  \<^verbatim>\<open>_renderArgs(width, height, format, id)\<close>, applied to the argument list of
  \<^verbatim>\<open>render\<close>. \<^verbatim>\<open>format.toLowerCase()\<close> on a truthy value that is not a string is a
  TypeError (the value has no such method).
\<close>

definition renderArgs :: "'s engine \<Rightarrow> js_value list \<Rightarrow> 's state \<Rightarrow> (error + render_result) \<times> 's state" where
  "renderArgs eng args st =
     (let width = arg 0 args; height = arg 1 args; format = arg 2 args; ident = arg 3 args in
      if truthy format then
        (case format of
           JStr s \<Rightarrow> call_render eng width height (JStr (toLowerCase s)) ident st
         | _ \<Rightarrow> (Inl (TypeError ''format.toLowerCase is not a function''), st))
      else call_render eng width height Null ident st)"

text \<open>\<^verbatim>\<open>options || {}\<close>.\<close>

definition or_empty :: "js_value \<Rightarrow> js_value" where
  "or_empty options = (if truthy options then options else JObj [])"

text \<open>
  \<^verbatim>\<open>render(options)\<close> on its argument list. The four arguments of the engine call
  are read from the options in the order of the source, each read throwing where
  JavaScript throws. The recursive call of the source is the recursive call here; a run
  that retries for ever has no result (\<open>None\<close>).
\<close>

partial_function (option) render ::
  "'s engine \<Rightarrow> js_value list \<Rightarrow> 's state \<Rightarrow> ((error + render_result) \<times> 's state) option" where
  "render eng args st =
     (if length args > 1 \<or> typeof (arg 0 args) \<noteq> ''object'' then Some (renderArgs eng args st)
      else
        let options = or_empty (arg 0 args) in
        case read_prop options ''width'' of Inl e \<Rightarrow> Some (Inl e, st) | Inr w \<Rightarrow>
       (case read_prop options ''height'' of Inl e \<Rightarrow> Some (Inl e, st) | Inr h \<Rightarrow>
       (case read_prop options ''format'' of Inl e \<Rightarrow> Some (Inl e, st) | Inr f \<Rightarrow>
       (case read_prop options ''id'' of Inl e \<Rightarrow> Some (Inl e, st) | Inr i \<Rightarrow>
       (case call_render eng w h f i st of
          (Inl e, st1) \<Rightarrow> Some (Inl e, st1)
        | (Inr img, st1) \<Rightarrow>
            (case width_get eng st1 of (width, st2) \<Rightarrow>
             case height_get eng st2 of (height, st3) \<Rightarrow>
               if width + height > 0 \<and> length (img_data img) = 0
               then render eng [options] st3
               else Some (Inr img, st3)))))))"

text \<open>The deprecated helpers: each builds an options object and calls \<^verbatim>\<open>render\<close>.\<close>

definition renderRaw ::
  "'s engine \<Rightarrow> js_value \<Rightarrow> js_value \<Rightarrow> js_value \<Rightarrow> 's state
     \<Rightarrow> ((error + render_result) \<times> 's state) option" where
  "renderRaw eng width height ident st =
     render eng [JObj [(''format'', JStr ''raw''), (''width'', width), (''height'', height),
                       (''element'', ident)]] st"

definition renderPNG ::
  "'s engine \<Rightarrow> js_value \<Rightarrow> js_value \<Rightarrow> js_value \<Rightarrow> 's state
     \<Rightarrow> ((error + render_result) \<times> 's state) option" where
  "renderPNG eng width height ident st =
     render eng [JObj [(''format'', JStr ''png''), (''width'', width), (''height'', height),
                       (''element'', ident)]] st"

definition renderPDF ::
  "'s engine \<Rightarrow> js_value \<Rightarrow> js_value \<Rightarrow> js_value \<Rightarrow> 's state
     \<Rightarrow> ((error + render_result) \<times> 's state) option" where
  "renderPDF eng width height ident st =
     render eng [JObj [(''format'', JStr ''pdf''), (''width'', width), (''height'', height),
                       (''element'', ident)]] st"

definition renderSVG ::
  "'s engine \<Rightarrow> js_value \<Rightarrow> js_value \<Rightarrow> js_value \<Rightarrow> 's state
     \<Rightarrow> ((error + render_result) \<times> 's state) option" where
  "renderSVG eng width height ident st =
     render eng [JObj [(''format'', JStr ''svg''), (''width'', width), (''height'', height),
                       (''element'', ident)]] st"

text \<open>
  The two reads \<^verbatim>\<open>this.width\<close> and \<^verbatim>\<open>this.height\<close> of the retry test, as they
  appear in the record of calls.
\<close>

definition size_read :: "'s state \<Rightarrow> 's state" where
  "size_read st = logged CGetHeight (logged CGetWidth st)"

text \<open>
  Two option arguments make the same request when \<^verbatim>\<open>render\<close> reads the same four
  values from them.
\<close>

definition same_request :: "js_value \<Rightarrow> js_value \<Rightarrow> bool" where
  "same_request a b \<longleftrightarrow>
     get_prop (or_empty a) ''width'' = get_prop (or_empty b) ''width'' \<and>
     get_prop (or_empty a) ''height'' = get_prop (or_empty b) ''height'' \<and>
     get_prop (or_empty a) ''format'' = get_prop (or_empty b) ''format'' \<and>
     get_prop (or_empty a) ''id'' = get_prop (or_empty b) ''id''"

subsection \<open>Every method of the class\<close>

text \<open>
  The methods of an \<^verbatim>\<open>Rsvg\<close> object, with their arguments, and the state a call leaves
  (\<open>None\<close> when the call does not return). This is only a way to speak about "every
  operation" at once; each case is the method defined above.
\<close>

datatype operation =
    Get_baseURI
  | Set_baseURI js_value
  | Get_dpiX
  | Set_dpiX js_value
  | Get_dpiY
  | Set_dpiY js_value
  | Get_width
  | Get_height
  | Call_getDPI
  | Call_setDPI js_value js_value
  | Call_dimensions js_value
  | Call_hasElement js_value
  | Call_autocrop
  | Call_render "js_value list"
  | Call_renderRaw js_value js_value js_value
  | Call_renderPNG js_value js_value js_value
  | Call_renderPDF js_value js_value js_value
  | Call_renderSVG js_value js_value js_value
  | Call_toString
  | Call_renderArgs "js_value list"

fun state_after ::
  "(js_value \<Rightarrow> error + js_value) \<Rightarrow> ((string \<times> js_value) list \<Rightarrow> string) \<Rightarrow> 's engine \<Rightarrow> operation
     \<Rightarrow> 's state \<Rightarrow> 's state option" where
  "state_after fix3 inspect eng Get_baseURI st = Some (snd (baseURI_get eng st))"
| "state_after fix3 inspect eng (Set_baseURI v) st = Some (snd (baseURI_set eng v st))"
| "state_after fix3 inspect eng Get_dpiX st = Some (snd (dpiX_get eng st))"
| "state_after fix3 inspect eng (Set_dpiX v) st = Some (snd (dpiX_set eng v st))"
| "state_after fix3 inspect eng Get_dpiY st = Some (snd (dpiY_get eng st))"
| "state_after fix3 inspect eng (Set_dpiY v) st = Some (snd (dpiY_set eng v st))"
| "state_after fix3 inspect eng Get_width st = Some (snd (width_get eng st))"
| "state_after fix3 inspect eng Get_height st = Some (snd (height_get eng st))"
| "state_after fix3 inspect eng Call_getDPI st = Some (snd (getDPI eng st))"
| "state_after fix3 inspect eng (Call_setDPI x y) st = Some (snd (setDPI eng x y st))"
| "state_after fix3 inspect eng (Call_dimensions i) st = Some (snd (dimensions eng i st))"
| "state_after fix3 inspect eng (Call_hasElement i) st = Some (snd (hasElement eng i st))"
| "state_after fix3 inspect eng Call_autocrop st = Some (snd (autocrop fix3 eng st))"
| "state_after fix3 inspect eng (Call_render args) st = map_option snd (render eng args st)"
| "state_after fix3 inspect eng (Call_renderRaw w h i) st = map_option snd (renderRaw eng w h i st)"
| "state_after fix3 inspect eng (Call_renderPNG w h i) st = map_option snd (renderPNG eng w h i st)"
| "state_after fix3 inspect eng (Call_renderPDF w h i) st = map_option snd (renderPDF eng w h i st)"
| "state_after fix3 inspect eng (Call_renderSVG w h i) st = map_option snd (renderSVG eng w h i st)"
| "state_after fix3 inspect eng Call_toString st = Some (snd (toString inspect eng st))"
| "state_after fix3 inspect eng (Call_renderArgs args) st = Some (snd (renderArgs eng args st))"

text \<open>
  A sequence of method calls on one object, each on the state the one before has left. A
  call that throws leaves a state too (the caller may catch the exception and go on);
  the sequence has no final state when one of its calls does not return.
\<close>

fun run ::
  "(js_value \<Rightarrow> error + js_value) \<Rightarrow> ((string \<times> js_value) list \<Rightarrow> string) \<Rightarrow> 's engine
     \<Rightarrow> operation list \<Rightarrow> 's state \<Rightarrow> 's state option" where
  "run fix3 inspect eng [] st = Some st"
| "run fix3 inspect eng (m # ms) st =
     (case state_after fix3 inspect eng m st of
        None \<Rightarrow> None
      | Some st1 \<Rightarrow> run fix3 inspect eng ms st1)"

section \<open>The engine's format matching\<close>

text \<open>
  The format names the documentation of \<^verbatim>\<open>render\<close> in \<^verbatim>\<open>index.js\<close> lists as valid.
\<close>

definition engine_formats :: "string list" where
  "engine_formats =
     [''png'', ''pdf'', ''svg'', ''raw'', ''argb32'', ''rgb24'', ''a8'', ''a1'', ''rgb16_565'', ''rgb30'']"

text \<open>
  Modelled from the spec: the matching of a format string against the enumerated format
  set is done by the native engine, whose code is not part of \<^verbatim>\<open>index.js\<close>. The spec
  says of it that "an unrecognized format fails with \<^verbatim>\<open>UnsupportedFormat\<close>": an engine
  \<open>rejects_unrecognized\<close> with the exception \<open>unsupported\<close> when its \<^verbatim>\<open>render\<close> throws
  \<open>unsupported\<close> for every format string outside the set, whatever the other arguments
  and its state.
\<close>

definition rejects_unrecognized :: "'s engine \<Rightarrow> error \<Rightarrow> bool" where
  "rejects_unrecognized eng unsupported \<longleftrightarrow>
     (\<forall>w h s i n. s \<notin> set engine_formats \<longrightarrow>
        fst (eng_render eng w h (JStr s) i n) = Inl unsupported)"

section \<open>A sample engine\<close>

text \<open>
  A small engine to run the facade on. Its handle counts the renders done. A document of
  no bytes does not parse. The first render of a handle returns an empty payload (the
  fault the retry of \<^verbatim>\<open>render\<close> is written for), later ones three bytes for the whole
  document and one byte for a subelement. A format string outside \<open>engine_formats\<close> is
  refused. Width and height are both \<open>sz\<close>. The drawing area it reports is at
  (1.23456, -2.71828), 10 wide and 99.9996 high.
\<close>

definition demo_render ::
  "int \<Rightarrow> js_value \<Rightarrow> js_value \<Rightarrow> js_value \<Rightarrow> js_value \<Rightarrow> nat \<Rightarrow> (error + render_result) \<times> nat" where
  "demo_render sz w h f i n =
     (if f = Undefined \<or> f = Null \<or> (\<exists>s \<in> set engine_formats. f = JStr s) then
        (Inr \<lparr>img_data = (if n = 0 then [] else if i = Undefined then [1, 2, 3] else [4]),
              img_format = (if truthy f then string_of f else ''raw''),
              img_width = sz, img_height = sz\<rparr>, Suc n)
      else (Inl (Error ''unsupported format''), n))"

definition demo :: "int \<Rightarrow> nat engine" where
  "demo sz =
     \<lparr>eng_new = (\<lambda>b. if b = [] then Inl (Error ''no data'') else Inr 0),
      eng_close = Inr,
      eng_getBaseURI = (\<lambda>n. Undefined),
      eng_setBaseURI = (\<lambda>v. Inr),
      eng_getDPIX = (\<lambda>n. JNum 90),
      eng_setDPIX = (\<lambda>v. Inr),
      eng_getDPIY = (\<lambda>n. JNum 90),
      eng_setDPIY = (\<lambda>v. Inr),
      eng_getWidth = (\<lambda>n. sz),
      eng_getHeight = (\<lambda>n. sz),
      eng_getDPI = (\<lambda>n. JObj [(''x'', JNum 90), (''y'', JNum 90)]),
      eng_setDPI = (\<lambda>x y. Inr),
      eng_dimensions = (\<lambda>i n. Inl (Error ''no such element'')),
      eng_hasElement = (\<lambda>i n. Inr (JBool False)),
      eng_autocrop = (\<lambda>n. Inr \<lparr>area_x = JNum (123456 / 100000), area_y = JNum (- 271828 / 100000),
                                area_width = JNum 10, area_height = JNum (999996 / 10000)\<rparr>),
      eng_render = demo_render sz\<rparr>"

text \<open>
  An engine whose fault is not transient: every render returns an empty payload, of a
  document whose width plus height is positive.
\<close>

definition persistent_fault :: "'s engine \<Rightarrow> bool" where
  "persistent_fault eng \<longleftrightarrow>
     (\<forall>w h f i s. \<exists>img s'. eng_render eng w h f i s = (Inr img, s') \<and> img_data img = []) \<and>
     (\<forall>s. 0 < eng_getWidth eng s + eng_getHeight eng s)"

definition stuck :: "nat engine" where
  "stuck = (demo 100)\<lparr>eng_render := (\<lambda>w h f i n.
              (Inr \<lparr>img_data = [], img_format = ''raw'', img_width = 100, img_height = 100\<rparr>, Suc n))\<rparr>"

section \<open>Construction\<close>

lemma constructor_string:
  "Rsvg_constructor eng (JStr s) trace = Rsvg_constructor eng (JBuf (Buffer_from s)) trace"
  by (simp add: Rsvg_constructor_def Let_def)

lemma constructor_buffer:
  "Rsvg_constructor eng (JBuf b) trace =
     (case eng_new eng b of
        Inl e \<Rightarrow> (Inl (load_failure e), trace @ [CNew b])
      | Inr h0 \<Rightarrow>
          (case eng_close eng h0 of
             Inl e \<Rightarrow> (Inl (load_failure e), trace @ [CNew b, CClose])
           | Inr h \<Rightarrow> (Inr h, trace @ [CNew b, CClose])))"
  by (simp add: Rsvg_constructor_def Let_def split: sum.splits)

lemma demo_new: "eng_new (demo n) b = (if b = [] then Inl (Error ''no data'') else Inr 0)"
  by (simp add: demo_def)

lemma demo_close: "eng_close (demo n) h = Inr h"
  by (simp add: demo_def)

lemma demo_size: "eng_getWidth (demo n) h = n" "eng_getHeight (demo n) h = n"
  by (simp_all add: demo_def)

lemma demo_eng_render: "eng_render (demo n) = demo_render n"
  by (simp add: demo_def)

text \<open>
  C5. A constructor argument that is neither a string nor a Buffer makes the constructor
  throw the TypeError of the source, and the engine has not been called: the record of
  calls is the one the constructor started with.
\<close>

theorem constructor_invalid_input:
  assumes "typeof buffer \<noteq> ''string''" and "\<not> Buffer_isBuffer buffer"
  shows "Rsvg_constructor eng buffer trace =
           (Inl (TypeError ''buffer should be a Buffer instance or a string''), trace)"
  using assms by (simp add: Rsvg_constructor_def)

theorem constructor_invalid_input_witness:
  "typeof (JNum 42) \<noteq> ''string'' \<and> \<not> Buffer_isBuffer (JNum 42) \<and>
   Rsvg_constructor (demo 100) (JNum 42) [] =
     (Inl (TypeError ''buffer should be a Buffer instance or a string''), [])"
  using constructor_invalid_input [of "JNum 42" "demo 100" "[]"] by simp

text \<open>
  C6. When the engine's constructor throws on the bytes of a Buffer or of a string, the
  facade's constructor throws an Error whose message is \<^verbatim>\<open>Rsvg load failure: \<close> followed by
  the message of the engine's exception; the outcome is the exception, not a handle, and
  the only engine call made is the failed parse.
\<close>

theorem constructor_load_failure:
  "(eng_new eng b = Inl e \<longrightarrow>
      Rsvg_constructor eng (JBuf b) trace =
        (Inl (Error (''Rsvg load failure: '' @ message e)), trace @ [CNew b])) \<and>
   (eng_new eng (Buffer_from s) = Inl e \<longrightarrow>
      Rsvg_constructor eng (JStr s) trace =
        (Inl (Error (''Rsvg load failure: '' @ message e)), trace @ [CNew (Buffer_from s)]))"
  by (simp add: constructor_string constructor_buffer load_failure_def)

theorem constructor_load_failure_witness:
  "eng_new (demo 100) [] = Inl (Error ''no data'') \<and>
   Rsvg_constructor (demo 100) (JBuf []) [] =
     (Inl (Error ''Rsvg load failure: no data''), [CNew []]) \<and>
   eng_new (demo 100) (Buffer_from []) = Inl (Error ''no data'') \<and>
   Rsvg_constructor (demo 100) (JStr []) [] =
     (Inl (Error ''Rsvg load failure: no data''), [CNew []])"
  using constructor_load_failure [of "demo 100" "[]" "Error ''no data''" "[]" "[]"]
  by (simp add: demo_new Buffer_from_def)

text \<open>
  C7. Constructing from a string is constructing from the Buffer of its bytes: the two
  constructor calls have the same outcome and make the same engine calls, so two handles
  obtained this way report the same width and the same height.
\<close>

theorem constructor_string_as_buffer:
  "Rsvg_constructor eng (JStr s) trace = Rsvg_constructor eng (JBuf (Buffer_from s)) trace \<and>
   (\<forall>h1 h2 l1 l2.
      Rsvg_constructor eng (JStr s) trace = (Inr h1, l1) \<longrightarrow>
      Rsvg_constructor eng (JBuf (Buffer_from s)) trace = (Inr h2, l2) \<longrightarrow>
      eng_getWidth eng h1 = eng_getWidth eng h2 \<and> eng_getHeight eng h1 = eng_getHeight eng h2)"
  by (simp add: constructor_string)

theorem constructor_string_as_buffer_witness:
  "Rsvg_constructor (demo 100) (JStr ''<svg/>'') [] =
     (Inr 0, [CNew (Buffer_from ''<svg/>''), CClose]) \<and>
   Rsvg_constructor (demo 100) (JBuf (Buffer_from ''<svg/>'')) [] =
     (Inr 0, [CNew (Buffer_from ''<svg/>''), CClose]) \<and>
   Buffer_from ''<svg/>'' = [60, 115, 118, 103, 47, 62]"
proof -
  have bytes: "Buffer_from ''<svg/>'' = [60, 115, 118, 103, 47, 62]"
    by (simp add: Buffer_from_def)
  have buf: "Rsvg_constructor (demo 100) (JBuf (Buffer_from ''<svg/>'')) [] =
               (Inr 0, [CNew (Buffer_from ''<svg/>''), CClose])"
    by (simp add: constructor_buffer demo_new demo_close bytes)
  have same: "Rsvg_constructor (demo 100) (JStr ''<svg/>'') [] =
                Rsvg_constructor (demo 100) (JBuf (Buffer_from ''<svg/>'')) []"
    using constructor_string_as_buffer [of "demo 100" "''<svg/>''" "[]"] by (rule conjunct1)
  from same buf have str: "Rsvg_constructor (demo 100) (JStr ''<svg/>'') [] =
                             (Inr 0, [CNew (Buffer_from ''<svg/>''), CClose])"
    by (rule trans)
  from constructor_string_as_buffer [of "demo 100" "''<svg/>''" "[]"] str buf
  have "eng_getWidth (demo 100) 0 = eng_getWidth (demo 100) 0 \<and>
        eng_getHeight (demo 100) 0 = eng_getHeight (demo 100) 0"
    by blast
  from str buf bytes show ?thesis by (intro conjI)
qed

section \<open>The drawing area\<close>








section \<open>Rendering: general facts\<close>

lemma typeof_or_empty: "typeof v = ''object'' \<Longrightarrow> typeof (or_empty v) = ''object''"
  by (simp add: or_empty_def)

lemma or_empty_idem: "or_empty (or_empty v) = or_empty v"
  by (simp add: or_empty_def)

lemma or_empty_truthy: "truthy v \<Longrightarrow> or_empty v = v"
  by (simp add: or_empty_def)

text \<open>After \<^verbatim>\<open>options || {}\<close> no property read throws.\<close>

lemma read_prop_or_empty: "read_prop (or_empty v) k = Inr (get_prop (or_empty v) k)"
  by (cases v) (simp_all add: or_empty_def)

lemma same_request_or_empty: "same_request a b \<Longrightarrow> same_request (or_empty a) (or_empty b)"
  by (simp add: same_request_def or_empty_idem)

lemma same_request_sym: "same_request a b \<Longrightarrow> same_request b a"
  by (simp add: same_request_def)

lemma calls_size_read: "calls (size_read st) = calls st @ [CGetWidth, CGetHeight]"
  by (simp add: size_read_def logged_def)

lemma handle_size_read: "handle (size_read st) = handle st"
  by (simp add: size_read_def logged_def)

lemma calls_call_render:
  "calls (snd (call_render eng w h f i st)) = calls st @ [CRender w h f i]"
  by (simp add: call_render_def logged_def split: prod.splits)

text \<open>The first branch of \<^verbatim>\<open>render\<close>: the call is handed to \<^verbatim>\<open>_renderArgs\<close>.\<close>

lemma render_positional:
  "1 < length args \<or> typeof (arg 0 args) \<noteq> ''object'' \<Longrightarrow>
   render eng args st = Some (renderArgs eng args st)"
  by (subst render.simps) simp

text \<open>The rest of \<^verbatim>\<open>render\<close>, for one argument of type \<^verbatim>\<open>'object'\<close>.\<close>

lemma render_canonical:
  assumes "typeof opt = ''object''"
  shows "render eng [opt] st =
     (case call_render eng (get_prop (or_empty opt) ''width'') (get_prop (or_empty opt) ''height'')
               (get_prop (or_empty opt) ''format'') (get_prop (or_empty opt) ''id'') st of
        (Inl e, st1) \<Rightarrow> Some (Inl e, st1)
      | (Inr img, st1) \<Rightarrow>
          if 0 < eng_getWidth eng (handle st1) + eng_getHeight eng (handle st1) \<and> img_data img = []
          then render eng [or_empty opt] (size_read st1)
          else Some (Inr img, size_read st1))"
  using assms
  by (subst render.simps)
     (simp add: arg_def Let_def read_prop_or_empty width_get_def height_get_def call_read_def logged_def size_read_def
           split: prod.splits sum.splits)

text \<open>
  What a canonical call returns is never an empty payload of a document whose width plus
  height is positive: by induction on the retries.
\<close>

lemma render_nonempty:
  assumes "render eng args st = Some y"
  shows "length args = 1 \<longrightarrow> typeof (arg 0 args) = ''object'' \<longrightarrow>
     (\<forall>img st'. y = (Inr img, st') \<longrightarrow>
        0 < eng_getWidth eng (handle st') + eng_getHeight eng (handle st') \<longrightarrow> img_data img \<noteq> [])"
proof (rule render.raw_induct [where P = "\<lambda>eng args st y.
     length args = 1 \<longrightarrow> typeof (arg 0 args) = ''object'' \<longrightarrow>
     (\<forall>img st'. y = (Inr img, st') \<longrightarrow>
        0 < eng_getWidth eng (handle st') + eng_getHeight eng (handle st') \<longrightarrow> img_data img \<noteq> [])",
     OF _ assms], goal_cases)
  case (1 render' eng args st y)
  then show ?case
    by (auto simp: arg_def Let_def read_prop_or_empty width_get_def height_get_def call_read_def logged_def
                   typeof_or_empty
             split: if_splits prod.splits sum.splits)
qed

text \<open>
  The result of a canonical call depends on the options only through the four values
  read from them. One direction by induction on the retries, the equation by symmetry.
\<close>

lemma render_same_request_aux:
  assumes "render eng args st = Some y"
  shows "\<forall>a b. args = [a] \<longrightarrow> typeof a = ''object'' \<longrightarrow> typeof b = ''object'' \<longrightarrow>
           same_request a b \<longrightarrow> render eng [b] st = Some y"
proof (rule render.raw_induct [where P = "\<lambda>eng args st y.
         \<forall>a b. args = [a] \<longrightarrow> typeof a = ''object'' \<longrightarrow> typeof b = ''object'' \<longrightarrow>
           same_request a b \<longrightarrow> render eng [b] st = Some y", OF _ assms], goal_cases)
  case (1 render' eng args st y)
  show ?case
  proof (intro allI impI)
    fix a b
    assume args: "args = [a]" and ta: "typeof a = ''object''" and tb: "typeof b = ''object''"
      and same: "same_request a b"
    let ?call = "call_render eng (get_prop (or_empty a) ''width'') (get_prop (or_empty a) ''height'')
                (get_prop (or_empty a) ''format'') (get_prop (or_empty a) ''id'') st"
    have cb: "call_render eng (get_prop (or_empty b) ''width'') (get_prop (or_empty b) ''height'')
                (get_prop (or_empty b) ''format'') (get_prop (or_empty b) ''id'') st = ?call"
      using same by (simp add: same_request_def)
    obtain r st1 where c: "?call = (r, st1)" by (cases ?call)
    show "render eng [b] st = Some y"
    proof (cases r)
      case (Inl e)
      with 1(2) args ta c have "y = (Inl e, st1)"
        by (simp add: arg_def Let_def read_prop_or_empty)
      moreover have "render eng [b] st = Some (Inl e, st1)"
        using tb c cb Inl by (simp add: render_canonical)
      ultimately show ?thesis by simp
    next
      case (Inr img)
      show ?thesis
      proof (cases "0 < eng_getWidth eng (handle st1) + eng_getHeight eng (handle st1)
                    \<and> img_data img = []")
        case True
        with 1(2) args ta c Inr have "render' eng [or_empty a] (size_read st1) = Some y"
          by (simp add: arg_def Let_def read_prop_or_empty width_get_def height_get_def call_read_def size_read_def
                        logged_def)
        then have "render eng [or_empty b] (size_read st1) = Some y"
          using 1(1) ta tb same by (blast intro: typeof_or_empty same_request_or_empty)
        moreover have "render eng [b] st = render eng [or_empty b] (size_read st1)"
          using tb c cb Inr True by (simp add: render_canonical)
        ultimately show ?thesis by simp
      next
        case False
        with 1(2) args ta c Inr have "y = (Inr img, size_read st1)"
          by (auto simp add: arg_def Let_def read_prop_or_empty width_get_def height_get_def call_read_def
                             size_read_def logged_def)
        moreover have "render eng [b] st = Some (Inr img, size_read st1)"
          using tb c cb Inr False by (auto simp add: render_canonical)
        ultimately show ?thesis by simp
      qed
    qed
  qed
qed

lemma render_same_request:
  assumes "typeof a = ''object''" and "typeof b = ''object''" and "same_request a b"
  shows "render eng [a] st = render eng [b] st"
proof (cases "render eng [a] st")
  case None
  show ?thesis
  proof (cases "render eng [b] st")
    case None
    with \<open>render eng [a] st = None\<close> show ?thesis by simp
  next
    case (Some y)
    from render_same_request_aux [OF Some] assms have "render eng [a] st = Some y"
      by (blast intro: same_request_sym)
    with None show ?thesis by simp
  qed
next
  case (Some y)
  from render_same_request_aux [OF Some] assms have "render eng [b] st = Some y"
    by blast
  with Some show ?thesis by simp
qed

text \<open>
  \<^verbatim>\<open>render\<close> only adds calls to the record, and none of them is \<^verbatim>\<open>close\<close>.
\<close>

lemma renderArgs_calls:
  "\<exists>cs. calls (snd (renderArgs eng args st)) = calls st @ cs \<and> CClose \<notin> set cs"
  by (simp add: renderArgs_def Let_def read_prop_or_empty calls_call_render split: js_value.splits)

lemma render_calls:
  assumes "render eng args st = Some y"
  shows "\<exists>cs. calls (snd y) = calls st @ cs \<and> CClose \<notin> set cs"
proof (rule render.raw_induct [where P = "\<lambda>eng args st y.
         \<exists>cs. calls (snd y) = calls st @ cs \<and> CClose \<notin> set cs", OF _ assms], goal_cases)
  case (1 render' eng args st y)
  show ?case
  proof (cases "1 < length args \<or> typeof (arg 0 args) \<noteq> ''object''")
    case True
    with 1(2) have "y = renderArgs eng args st" by simp
    then show ?thesis using renderArgs_calls [of eng args st] by simp
  next
    case False
    let ?opts = "or_empty (arg 0 args)"
    let ?call = "call_render eng (get_prop ?opts ''width'') (get_prop ?opts ''height'')
                (get_prop ?opts ''format'') (get_prop ?opts ''id'') st"
    obtain r st1 where c: "?call = (r, st1)" by (cases ?call)
    have st1: "calls st1 = calls st @ [CRender (get_prop ?opts ''width'') (get_prop ?opts ''height'')
                (get_prop ?opts ''format'') (get_prop ?opts ''id'')]"
      using calls_call_render [of eng "get_prop ?opts ''width''" "get_prop ?opts ''height''"
                "get_prop ?opts ''format''" "get_prop ?opts ''id''" st] c by simp
    show ?thesis
    proof (cases r)
      case (Inl e)
      with 1(2) False c have "y = (Inl e, st1)" by (simp add: Let_def read_prop_or_empty)
      with st1 show ?thesis by simp
    next
      case (Inr img)
      show ?thesis
      proof (cases "0 < eng_getWidth eng (handle st1) + eng_getHeight eng (handle st1)
                    \<and> img_data img = []")
        case True
        with 1(2) False c Inr have "render' eng [?opts] (size_read st1) = Some y"
          by (simp add: Let_def read_prop_or_empty width_get_def height_get_def call_read_def size_read_def logged_def)
        from 1(1) [OF this] obtain cs where
          "calls (snd y) = calls (size_read st1) @ cs" and "CClose \<notin> set cs" by blast
        with st1 show ?thesis by (simp add: calls_size_read)
      next
        case False2: False
        with 1(2) False c Inr have "y = (Inr img, size_read st1)"
          by (auto simp add: Let_def read_prop_or_empty width_get_def height_get_def call_read_def size_read_def
                             logged_def)
        with st1 show ?thesis by (simp add: calls_size_read)
      qed
    qed
  qed
qed

section \<open>Rendering: the retry\<close>

lemma demo_call_render:
  "call_render (demo n) w h f i st =
     (case demo_render n w h f i (handle st) of
        (r, s) \<Rightarrow> (r, \<lparr>handle = s, calls = calls st @ [CRender w h f i]\<rparr>))"
  by (simp add: call_render_def demo_eng_render logged_def split: prod.splits)

lemma size_read_record:
  "size_read \<lparr>handle = s, calls = cs\<rparr> = \<lparr>handle = s, calls = cs @ [CGetWidth, CGetHeight]\<rparr>"
  by (simp add: size_read_def logged_def)

text \<open>
  C2. A call \<^verbatim>\<open>render(options)\<close> with an options object: when the engine's render
  returns a result whose payload has length zero and the document's width plus height is
  positive, that result is not returned; the value of the call is the value of
  \<^verbatim>\<open>render(options)\<close> called again with the same object, in the state the engine call
  and the two size reads leave. No exception is made of the empty result, and a result
  that the call returns never has an empty payload while the width plus height is positive.
\<close>

theorem render_retries_on_empty:
  assumes "typeof options = ''object''" and "truthy options"
    and "call_render eng (get_prop options ''width'') (get_prop options ''height'')
           (get_prop options ''format'') (get_prop options ''id'') st = (Inr img, st1)"
    and "0 < eng_getWidth eng (handle st1) + eng_getHeight eng (handle st1)"
    and "length (img_data img) = 0"
  shows "render eng [options] st = render eng [options] (size_read st1) \<and>
         (\<forall>img' st'. render eng [options] st = Some (Inr img', st') \<longrightarrow>
            0 < eng_getWidth eng (handle st') + eng_getHeight eng (handle st') \<longrightarrow>
            img_data img' \<noteq> [])"
proof (intro conjI allI impI)
  show "render eng [options] st = render eng [options] (size_read st1)"
    using assms by (simp add: render_canonical or_empty_truthy)
next
  fix img' st'
  assume "render eng [options] st = Some (Inr img', st')"
    and "0 < eng_getWidth eng (handle st') + eng_getHeight eng (handle st')"
  with render_nonempty [of eng "[options]" st "(Inr img', st')"] assms(1)
  show "img_data img' \<noteq> []"
    by (simp add: arg_def)
qed

theorem render_retries_on_empty_witness:
  "typeof (JObj [(''format'', JStr ''png'')]) = ''object'' \<and>
   truthy (JObj [(''format'', JStr ''png'')]) \<and>
   call_render (demo 100) Undefined Undefined (JStr ''png'') Undefined \<lparr>handle = 0, calls = []\<rparr> =
     (Inr \<lparr>img_data = [], img_format = ''png'', img_width = 100, img_height = 100\<rparr>,
      \<lparr>handle = 1, calls = [CRender Undefined Undefined (JStr ''png'') Undefined]\<rparr>) \<and>
   0 < eng_getWidth (demo 100) (1::nat) + eng_getHeight (demo 100) (1::nat) \<and>
   render (demo 100) [JObj [(''format'', JStr ''png'')]] \<lparr>handle = 0, calls = []\<rparr> =
     render (demo 100) [JObj [(''format'', JStr ''png'')]]
       \<lparr>handle = 1,
        calls = [CRender Undefined Undefined (JStr ''png'') Undefined, CGetWidth, CGetHeight]\<rparr> \<and>
   render (demo 100) [JObj [(''format'', JStr ''png'')]] \<lparr>handle = 0, calls = []\<rparr> =
     Some (Inr \<lparr>img_data = [1, 2, 3], img_format = ''png'', img_width = 100, img_height = 100\<rparr>,
           \<lparr>handle = 2,
            calls = [CRender Undefined Undefined (JStr ''png'') Undefined, CGetWidth, CGetHeight,
                     CRender Undefined Undefined (JStr ''png'') Undefined, CGetWidth, CGetHeight]\<rparr>)"
proof -
  let ?opts = "JObj [(''format'', JStr ''png'')]"
  let ?init = "\<lparr>handle = 0::nat, calls = []\<rparr>"
  let ?image = "\<lparr>img_data = [], img_format = ''png'', img_width = 100, img_height = 100\<rparr>"
  let ?next = "\<lparr>handle = 1::nat, calls = [CRender Undefined Undefined (JStr ''png'') Undefined]\<rparr>"
  have obj: "typeof ?opts = ''object''" and tr: "truthy ?opts"
    by simp_all
  have call: "call_render (demo 100) (get_prop ?opts ''width'') (get_prop ?opts ''height'')
                (get_prop ?opts ''format'') (get_prop ?opts ''id'') ?init = (Inr ?image, ?next)"
    by (simp add: demo_call_render demo_render_def engine_formats_def)
  have size: "0 < eng_getWidth (demo 100) (handle ?next) + eng_getHeight (demo 100) (handle ?next)"
    by (simp add: demo_size)
  have empty: "length (img_data ?image) = 0"
    by simp
  have again: "render (demo 100) [?opts] ?init = render (demo 100) [?opts] (size_read ?next)"
    using render_retries_on_empty [OF obj tr call size empty] by (rule conjunct1)
  have second: "render (demo 100) [?opts] (size_read ?next) =
     Some (Inr \<lparr>img_data = [1, 2, 3], img_format = ''png'', img_width = 100, img_height = 100\<rparr>,
           \<lparr>handle = 2,
            calls = [CRender Undefined Undefined (JStr ''png'') Undefined, CGetWidth, CGetHeight,
                     CRender Undefined Undefined (JStr ''png'') Undefined, CGetWidth, CGetHeight]\<rparr>)"
    by (simp add: render_canonical or_empty_def demo_call_render demo_render_def engine_formats_def
                  demo_size size_read_record)
  from obj tr call size again second show ?thesis
    by (simp add: size_read_record)
qed

text \<open>
  The retry has no bound: on an engine whose fault is not transient a canonical call
  never returns. (This is why the value of \<^verbatim>\<open>render\<close> is an option.)
\<close>

lemma render_persistent_fault_aux:
  assumes "render eng args st = Some y"
  shows "\<not> (persistent_fault eng \<and> length args = 1 \<and> typeof (arg 0 args) = ''object'')"
proof (rule render.raw_induct [where P = "\<lambda>eng args st y.
         \<not> (persistent_fault eng \<and> length args = 1 \<and> typeof (arg 0 args) = ''object'')",
         OF _ assms], goal_cases)
  case (1 render' eng args st y)
  show ?case
  proof
    assume a: "persistent_fault eng \<and> length args = 1 \<and> typeof (arg 0 args) = ''object''"
    let ?opts = "or_empty (arg 0 args)"
    from a obtain img s' where
      r: "eng_render eng (get_prop ?opts ''width'') (get_prop ?opts ''height'')
            (get_prop ?opts ''format'') (get_prop ?opts ''id'') (handle st) = (Inr img, s')"
      and e: "img_data img = []"
      unfolding persistent_fault_def by blast
    from a have pos: "0 < eng_getWidth eng s' + eng_getHeight eng s'"
      unfolding persistent_fault_def by blast
    from 1(2) a r e pos have "\<exists>st3. render' eng [?opts] st3 = Some y"
      by (auto simp add: Let_def read_prop_or_empty call_render_def width_get_def height_get_def call_read_def
                         logged_def)
    then obtain st3 where again: "render' eng [?opts] st3 = Some y" ..
    from a have "typeof ?opts = ''object''"
      by (simp add: typeof_or_empty)
    moreover have "arg 0 [?opts] = ?opts"
      by (simp add: arg_def)
    ultimately show False
      using 1(1) [OF again] a by simp
  qed
qed

lemma render_persistent_fault:
  assumes "persistent_fault eng" and "typeof options = ''object''"
  shows "render eng [options] st = None"
proof (cases "render eng [options] st")
  case None
  then show ?thesis .
next
  case (Some y)
  from render_persistent_fault_aux [OF Some] assms show ?thesis
    by (simp add: arg_def)
qed

lemma stuck_never_returns: "render stuck [JObj []] \<lparr>handle = 0, calls = []\<rparr> = None"
  by (rule render_persistent_fault) (simp_all add: persistent_fault_def stuck_def demo_def)

text \<open>
  C3. A document whose width plus height is zero: the result of the engine's render is
  what \<^verbatim>\<open>render(options)\<close> returns, also when its payload is empty. The engine's
  render has been called once; the only calls after it are the two size reads. A call
  in the positional shape never retries, whatever the document.
\<close>

theorem render_degenerate_no_retry:
  assumes "typeof options = ''object''"
    and "call_render eng (get_prop (or_empty options) ''width'')
           (get_prop (or_empty options) ''height'') (get_prop (or_empty options) ''format'')
           (get_prop (or_empty options) ''id'') st = (Inr img, st1)"
    and "eng_getWidth eng (handle st1) + eng_getHeight eng (handle st1) = 0"
  shows "render eng [options] st = Some (Inr img, size_read st1) \<and>
         calls (size_read st1) =
           calls st @ [CRender (get_prop (or_empty options) ''width'')
                         (get_prop (or_empty options) ''height'')
                         (get_prop (or_empty options) ''format'')
                         (get_prop (or_empty options) ''id''), CGetWidth, CGetHeight] \<and>
         (\<forall>args. 1 < length args \<or> typeof (arg 0 args) \<noteq> ''object'' \<longrightarrow>
            render eng args st = Some (renderArgs eng args st))"
proof (intro conjI allI impI)
  show "render eng [options] st = Some (Inr img, size_read st1)"
    using assms by (simp add: render_canonical)
next
  from calls_call_render [of eng "get_prop (or_empty options) ''width''"
         "get_prop (or_empty options) ''height''" "get_prop (or_empty options) ''format''"
         "get_prop (or_empty options) ''id''" st] assms(2)
  show "calls (size_read st1) =
           calls st @ [CRender (get_prop (or_empty options) ''width'')
                         (get_prop (or_empty options) ''height'')
                         (get_prop (or_empty options) ''format'')
                         (get_prop (or_empty options) ''id''), CGetWidth, CGetHeight]"
    by (simp add: calls_size_read)
next
  fix args :: "js_value list"
  assume "1 < length args \<or> typeof (arg 0 args) \<noteq> ''object''"
  then show "render eng args st = Some (renderArgs eng args st)"
    by (rule render_positional)
qed

theorem render_degenerate_no_retry_witness:
  "typeof (JObj [(''format'', JStr ''png'')]) = ''object'' \<and>
   eng_getWidth (demo 0) (1::nat) + eng_getHeight (demo 0) (1::nat) = 0 \<and>
   render (demo 0) [JObj [(''format'', JStr ''png'')]] \<lparr>handle = 0, calls = []\<rparr> =
     Some (Inr \<lparr>img_data = [], img_format = ''png'', img_width = 0, img_height = 0\<rparr>,
           \<lparr>handle = 1,
            calls = [CRender Undefined Undefined (JStr ''png'') Undefined, CGetWidth, CGetHeight]\<rparr>) \<and>
   render (demo 0) [JNum 10, JNum 10] \<lparr>handle = 0, calls = []\<rparr> =
     Some (Inr \<lparr>img_data = [], img_format = ''raw'', img_width = 0, img_height = 0\<rparr>,
           \<lparr>handle = 1, calls = [CRender (JNum 10) (JNum 10) Null Undefined]\<rparr>)"
proof -
  let ?opts = "JObj [(''format'', JStr ''png'')]"
  let ?init = "\<lparr>handle = 0::nat, calls = []\<rparr>"
  let ?image = "\<lparr>img_data = [], img_format = ''png'', img_width = 0, img_height = 0\<rparr>"
  let ?next = "\<lparr>handle = 1::nat, calls = [CRender Undefined Undefined (JStr ''png'') Undefined]\<rparr>"
  have obj: "typeof ?opts = ''object''"
    by simp
  have call: "call_render (demo 0) (get_prop (or_empty ?opts) ''width'')
                (get_prop (or_empty ?opts) ''height'') (get_prop (or_empty ?opts) ''format'')
                (get_prop (or_empty ?opts) ''id'') ?init = (Inr ?image, ?next)"
    by (simp add: or_empty_def demo_call_render demo_render_def engine_formats_def)
  have size: "eng_getWidth (demo 0) (handle ?next) + eng_getHeight (demo 0) (handle ?next) = 0"
    by (simp add: demo_size)
  note inst = render_degenerate_no_retry [OF obj call size]
  from inst have canonical: "render (demo 0) [?opts] ?init = Some (Inr ?image, size_read ?next)"
    by (rule conjunct1)
  from inst have "1 < length [JNum 10, JNum 10] \<or> typeof (arg 0 [JNum 10, JNum 10]) \<noteq> ''object''
      \<longrightarrow> render (demo 0) [JNum 10, JNum 10] ?init = Some (renderArgs (demo 0) [JNum 10, JNum 10] ?init)"
    by blast
  then have positional:
    "render (demo 0) [JNum 10, JNum 10] ?init = Some (renderArgs (demo 0) [JNum 10, JNum 10] ?init)"
    by simp
  have "renderArgs (demo 0) [JNum 10, JNum 10] ?init =
          (Inr \<lparr>img_data = [], img_format = ''raw'', img_width = 0, img_height = 0\<rparr>,
           \<lparr>handle = 1, calls = [CRender (JNum 10) (JNum 10) Null Undefined]\<rparr>)"
    by (simp add: renderArgs_def arg_def demo_call_render demo_render_def)
  with obj size canonical positional show ?thesis
    by (simp add: size_read_record)
qed

text \<open>
  C10. \<^verbatim>\<open>render()\<close> and \<^verbatim>\<open>render(v)\<close> for a \<open>v\<close> that is not of type
  \<^verbatim>\<open>'object'\<close> go to \<^verbatim>\<open>_renderArgs\<close>: one call of the engine's render, with
  \<^verbatim>\<open>null\<close> for the format, whose outcome is returned as it is, empty payload or not.
  \<^verbatim>\<open>render(null)\<close> is \<^verbatim>\<open>render({})\<close>: \<^verbatim>\<open>options || {}\<close> puts the empty
  object in the place of \<^verbatim>\<open>null\<close>, on which the read of \<^verbatim>\<open>options.width\<close> would
  throw; the engine is called with four \<^verbatim>\<open>undefined\<close> arguments and an empty payload
  of a document with positive width plus height is retried.
\<close>

theorem render_argument_dispatch:
  "render eng [] st = Some (call_render eng Undefined Undefined Null Undefined st) \<and>
   (typeof v \<noteq> ''object'' \<longrightarrow>
      render eng [v] st = Some (call_render eng v Undefined Null Undefined st)) \<and>
   or_empty Null = JObj [] \<and>
   read_prop Null ''width'' = Inl (TypeError ''Cannot read properties of null'') \<and>
   render eng [Null] st = render eng [JObj []] st \<and>
   render eng [Null] st =
     (case call_render eng Undefined Undefined Undefined Undefined st of
        (Inl e, st1) \<Rightarrow> Some (Inl e, st1)
      | (Inr img, st1) \<Rightarrow>
          if 0 < eng_getWidth eng (handle st1) + eng_getHeight eng (handle st1) \<and> img_data img = []
          then render eng [JObj []] (size_read st1)
          else Some (Inr img, size_read st1))"
proof (intro conjI impI)
  show "render eng [] st = Some (call_render eng Undefined Undefined Null Undefined st)"
    by (simp add: render_positional renderArgs_def arg_def)
next
  assume "typeof v \<noteq> ''object''"
  then show "render eng [v] st = Some (call_render eng v Undefined Null Undefined st)"
    by (simp add: render_positional renderArgs_def arg_def)
next
  show "or_empty Null = JObj []"
    by (simp add: or_empty_def)
next
  show "read_prop Null ''width'' = Inl (TypeError ''Cannot read properties of null'')"
    by simp
next
  show "render eng [Null] st = render eng [JObj []] st"
    by (rule render_same_request) (simp_all add: same_request_def or_empty_def)
next
  show "render eng [Null] st =
     (case call_render eng Undefined Undefined Undefined Undefined st of
        (Inl e, st1) \<Rightarrow> Some (Inl e, st1)
      | (Inr img, st1) \<Rightarrow>
          if 0 < eng_getWidth eng (handle st1) + eng_getHeight eng (handle st1) \<and> img_data img = []
          then render eng [JObj []] (size_read st1)
          else Some (Inr img, size_read st1))"
    by (simp add: render_canonical or_empty_def split: prod.splits sum.splits)
qed

theorem render_argument_dispatch_witness:
  "render (demo 100) [] \<lparr>handle = 0, calls = []\<rparr> =
     Some (Inr \<lparr>img_data = [], img_format = ''raw'', img_width = 100, img_height = 100\<rparr>,
           \<lparr>handle = 1, calls = [CRender Undefined Undefined Null Undefined]\<rparr>) \<and>
   typeof (JStr ''png'') \<noteq> ''object'' \<and>
   render (demo 100) [JStr ''png''] \<lparr>handle = 0, calls = []\<rparr> =
     Some (Inr \<lparr>img_data = [], img_format = ''raw'', img_width = 100, img_height = 100\<rparr>,
           \<lparr>handle = 1, calls = [CRender (JStr ''png'') Undefined Null Undefined]\<rparr>) \<and>
   render (demo 100) [Null] \<lparr>handle = 0, calls = []\<rparr> =
     Some (Inr \<lparr>img_data = [1, 2, 3], img_format = ''raw'', img_width = 100, img_height = 100\<rparr>,
           \<lparr>handle = 2,
            calls = [CRender Undefined Undefined Undefined Undefined, CGetWidth, CGetHeight,
                     CRender Undefined Undefined Undefined Undefined, CGetWidth, CGetHeight]\<rparr>)"
proof -
  let ?init = "\<lparr>handle = 0::nat, calls = []\<rparr>"
  note inst = render_argument_dispatch [of "demo 100" ?init "JStr ''png''"]
  from inst have none:
    "render (demo 100) [] ?init = Some (call_render (demo 100) Undefined Undefined Null Undefined ?init)"
    by (rule conjunct1)
  have str: "typeof (JStr ''png'') \<noteq> ''object''"
    by simp
  from inst str have one:
    "render (demo 100) [JStr ''png''] ?init =
       Some (call_render (demo 100) (JStr ''png'') Undefined Null Undefined ?init)"
    by blast
  from inst have null:
    "render (demo 100) [Null] ?init =
     (case call_render (demo 100) Undefined Undefined Undefined Undefined ?init of
        (Inl e, st1) \<Rightarrow> Some (Inl e, st1)
      | (Inr img, st1) \<Rightarrow>
          if 0 < eng_getWidth (demo 100) (handle st1) + eng_getHeight (demo 100) (handle st1)
             \<and> img_data img = []
          then render (demo 100) [JObj []] (size_read st1)
          else Some (Inr img, size_read st1))"
    by blast
  have retry: "render (demo 100) [JObj []]
        \<lparr>handle = 1, calls = [CRender Undefined Undefined Undefined Undefined, CGetWidth, CGetHeight]\<rparr> =
     Some (Inr \<lparr>img_data = [1, 2, 3], img_format = ''raw'', img_width = 100, img_height = 100\<rparr>,
           \<lparr>handle = 2,
            calls = [CRender Undefined Undefined Undefined Undefined, CGetWidth, CGetHeight,
                     CRender Undefined Undefined Undefined Undefined, CGetWidth, CGetHeight]\<rparr>)"
    by (simp add: render_canonical or_empty_def demo_call_render demo_render_def demo_size
                  size_read_record)
  have a: "render (demo 100) [] ?init =
     Some (Inr \<lparr>img_data = [], img_format = ''raw'', img_width = 100, img_height = 100\<rparr>,
           \<lparr>handle = 1, calls = [CRender Undefined Undefined Null Undefined]\<rparr>)"
    using none by (simp add: demo_call_render demo_render_def)
  have b: "render (demo 100) [JStr ''png''] ?init =
     Some (Inr \<lparr>img_data = [], img_format = ''raw'', img_width = 100, img_height = 100\<rparr>,
           \<lparr>handle = 1, calls = [CRender (JStr ''png'') Undefined Null Undefined]\<rparr>)"
    using one by (simp add: demo_call_render demo_render_def)
  have c: "render (demo 100) [Null] ?init =
     Some (Inr \<lparr>img_data = [1, 2, 3], img_format = ''raw'', img_width = 100, img_height = 100\<rparr>,
           \<lparr>handle = 2,
            calls = [CRender Undefined Undefined Undefined Undefined, CGetWidth, CGetHeight,
                     CRender Undefined Undefined Undefined Undefined, CGetWidth, CGetHeight]\<rparr>)"
    using null retry by (simp add: demo_call_render demo_render_def demo_size size_read_record)
  from a str b c show ?thesis
    by (intro conjI)
qed

section \<open>The release step\<close>

lemma call_read_calls: "calls (snd (call_read c f st)) = calls st @ [c]"
  by (simp add: call_read_def logged_def)

lemma call_write_calls: "calls (snd (call_write c f st)) = calls st @ [c]"
  by (simp add: call_write_def logged_def split: sum.splits)

lemma autocrop_calls: "calls (snd (autocrop fix3 eng st)) = calls st @ [CAutocrop]"
  by (simp add: autocrop_def call_read_def logged_def split: sum.splits)

lemma toString_calls:
  "\<exists>cs. calls (snd (toString inspect eng st)) = calls st @ cs \<and> CClose \<notin> set cs"
  by (simp add: toString_def width_get_def height_get_def baseURI_get_def call_read_def
                logged_def Let_def)

lemma constructor_success:
  assumes "Rsvg_constructor eng buffer trace = (Inr h, trace')"
  shows "\<exists>b h0. trace' = trace @ [CNew b, CClose] \<and> eng_new eng b = Inr h0 \<and> eng_close eng h0 = Inr h"
  using assms
  by (auto simp: Rsvg_constructor_def Let_def split: if_splits sum.splits)

lemma demo_setDPIX: "eng_setDPIX (demo n) v h = Inr h"
  by (simp add: demo_def)

text \<open>No method other than the constructor calls \<^verbatim>\<open>close\<close>: by cases on the method.\<close>

lemma state_after_calls:
  assumes "state_after fix3 inspect eng m st = Some st'"
  shows "\<exists>cs. calls st' = calls st @ cs \<and> CClose \<notin> set cs"
proof (cases m)
  case (Call_render args)
  with assms obtain r where "render eng args st = Some (r, st')" by auto
  from render_calls [OF this] show ?thesis by simp
next
  case (Call_renderRaw w h i)
  with assms obtain r where "renderRaw eng w h i st = Some (r, st')" by auto
  then show ?thesis using render_calls unfolding renderRaw_def by fastforce
next
  case (Call_renderPNG w h i)
  with assms obtain r where "renderPNG eng w h i st = Some (r, st')" by auto
  then show ?thesis using render_calls unfolding renderPNG_def by fastforce
next
  case (Call_renderPDF w h i)
  with assms obtain r where "renderPDF eng w h i st = Some (r, st')" by auto
  then show ?thesis using render_calls unfolding renderPDF_def by fastforce
next
  case (Call_renderSVG w h i)
  with assms obtain r where "renderSVG eng w h i st = Some (r, st')" by auto
  then show ?thesis using render_calls unfolding renderSVG_def by fastforce
next
  case Call_toString
  with assms toString_calls [of inspect eng st] show ?thesis by auto
next
  case (Call_renderArgs args)
  with assms renderArgs_calls [of eng args st] show ?thesis by auto
next
  case Call_autocrop
  with assms autocrop_calls [of fix3 eng st] show ?thesis by auto
qed (use assms in \<open>auto simp: baseURI_get_def baseURI_set_def dpiX_get_def dpiX_set_def dpiY_get_def
       dpiY_set_def width_get_def height_get_def getDPI_def setDPI_def dimensions_def
       hasElement_def call_read_calls call_write_calls\<close>)

text \<open>So does no sequence of them: by induction on the sequence.\<close>

lemma run_calls:
  "run fix3 inspect eng ms st = Some st' \<Longrightarrow> \<exists>cs. calls st' = calls st @ cs \<and> CClose \<notin> set cs"
proof (induction ms arbitrary: st)
  case Nil
  then show ?case by simp
next
  case (Cons m ms)
  from Cons.prems obtain st1 where first: "state_after fix3 inspect eng m st = Some st1"
    and rest: "run fix3 inspect eng ms st1 = Some st'"
    by (auto split: option.splits)
  from state_after_calls [OF first] obtain cs1 where
    cs1: "calls st1 = calls st @ cs1" "CClose \<notin> set cs1" by blast
  from Cons.IH [OF rest] obtain cs2 where
    cs2: "calls st' = calls st1 @ cs2" "CClose \<notin> set cs2" by blast
  from cs1 cs2 have "calls st' = calls st @ (cs1 @ cs2) \<and> CClose \<notin> set (cs1 @ cs2)"
    by simp
  then show ?case by blast
qed

text \<open>
  C9. A constructor call that succeeds has made two engine calls, the parse and then
  \<^verbatim>\<open>close\<close>, in this order and nothing else; the handle of the object is the one
  \<^verbatim>\<open>close\<close> returned for the parsed handle. Whatever methods are then called on the
  object, in any number and order, the record of calls after them is the parse, the one
  \<^verbatim>\<open>close\<close>, and calls that are not \<^verbatim>\<open>close\<close>.
\<close>

theorem release_step_once:
  assumes "Rsvg_constructor eng buffer trace = (Inr h, trace')"
  shows "\<exists>b h0. trace' = trace @ [CNew b, CClose] \<and> eng_new eng b = Inr h0 \<and> eng_close eng h0 = Inr h \<and>
           (\<forall>ms st'. run fix3 inspect eng ms \<lparr>handle = h, calls = trace'\<rparr> = Some st' \<longrightarrow>
              (\<exists>cs. calls st' = trace @ [CNew b, CClose] @ cs \<and> CClose \<notin> set cs))"
proof -
  from constructor_success [OF assms] obtain b h0 where
    new: "trace' = trace @ [CNew b, CClose]" "eng_new eng b = Inr h0" "eng_close eng h0 = Inr h"
    by blast
  have "\<exists>cs. calls st' = trace @ [CNew b, CClose] @ cs \<and> CClose \<notin> set cs"
    if "run fix3 inspect eng ms \<lparr>handle = h, calls = trace'\<rparr> = Some st'" for ms st'
    using run_calls [OF that] new(1) by simp
  with new show ?thesis
    by blast
qed

theorem release_step_once_witness:
  "Rsvg_constructor (demo 100) (JStr ''<svg/>'') [] = (Inr 0, [CNew (Buffer_from ''<svg/>''), CClose]) \<and>
   run Inr (\<lambda>ps. []) (demo 100)
       [Get_width, Call_renderPNG (JNum 10) (JNum 10) Undefined, Set_dpiX (JNum 300)]
       \<lparr>handle = 0, calls = [CNew (Buffer_from ''<svg/>''), CClose]\<rparr> =
     Some \<lparr>handle = 2,
           calls = [CNew (Buffer_from ''<svg/>''), CClose, CGetWidth,
                    CRender (JNum 10) (JNum 10) (JStr ''png'') Undefined, CGetWidth, CGetHeight,
                    CRender (JNum 10) (JNum 10) (JStr ''png'') Undefined, CGetWidth, CGetHeight,
                    CSetDPIX (JNum 300)]\<rparr> \<and>
   (\<exists>b cs. [CNew (Buffer_from ''<svg/>''), CClose, CGetWidth,
             CRender (JNum 10) (JNum 10) (JStr ''png'') Undefined, CGetWidth, CGetHeight,
             CRender (JNum 10) (JNum 10) (JStr ''png'') Undefined, CGetWidth, CGetHeight,
             CSetDPIX (JNum 300)] = [CNew b, CClose] @ cs \<and> CClose \<notin> set cs)"
proof -
  let ?trace = "[CNew (Buffer_from ''<svg/>''), CClose]"
  let ?final = "\<lparr>handle = 2::nat,
               calls = [CNew (Buffer_from ''<svg/>''), CClose, CGetWidth,
                        CRender (JNum 10) (JNum 10) (JStr ''png'') Undefined, CGetWidth, CGetHeight,
                        CRender (JNum 10) (JNum 10) (JStr ''png'') Undefined, CGetWidth, CGetHeight,
                        CSetDPIX (JNum 300)]\<rparr>"
  have bytes: "Buffer_from ''<svg/>'' \<noteq> []"
    by (simp add: Buffer_from_def)
  have new: "Rsvg_constructor (demo 100) (JStr ''<svg/>'') [] = (Inr 0, ?trace)"
    by (simp add: constructor_string constructor_buffer demo_new demo_close bytes)
  have ops: "run Inr (\<lambda>ps. []) (demo 100)
               [Get_width, Call_renderPNG (JNum 10) (JNum 10) Undefined, Set_dpiX (JNum 300)]
               \<lparr>handle = 0, calls = ?trace\<rparr> = Some ?final"
    by (simp add: width_get_def call_read_def dpiX_set_def call_write_def logged_def demo_setDPIX
                  renderPNG_def render_canonical or_empty_def demo_call_render demo_render_def
                  engine_formats_def demo_size size_read_record)
  from release_step_once [OF new, of Inr "\<lambda>ps. []"] obtain b h0 where
    "?trace = [] @ [CNew b, CClose]" and
    later: "\<forall>ms st'. run Inr (\<lambda>ps. []) (demo 100) ms \<lparr>handle = 0, calls = ?trace\<rparr> = Some st' \<longrightarrow>
              (\<exists>cs. calls st' = [] @ [CNew b, CClose] @ cs \<and> CClose \<notin> set cs)"
    by blast
  from later ops have "\<exists>cs. calls ?final = [] @ [CNew b, CClose] @ cs \<and> CClose \<notin> set cs"
    by blast
  then have "\<exists>b cs. calls ?final = [CNew b, CClose] @ cs \<and> CClose \<notin> set cs"
    by auto
  with new ops show ?thesis
    by simp
qed

section \<open>The positional call shape\<close>

lemma lower_char_not_upper: "lower_char c \<notin> set ''ABCDEFGHIJKLMNOPQRSTUVWXYZ''"
  by (simp add: lower_char_def split: option.splits)

lemma toLowerCase_no_upper: "\<forall>c \<in> set (toLowerCase s). c \<notin> set ''ABCDEFGHIJKLMNOPQRSTUVWXYZ''"
  using lower_char_not_upper by (auto simp: toLowerCase_def simp del: set_simps)

lemma arg_length: "arg n args \<noteq> Undefined \<Longrightarrow> n < length args"
  by (simp add: arg_def split: if_splits)

lemma renderArgs_string:
  assumes "arg 2 args = JStr s" and "s \<noteq> []"
  shows "renderArgs eng args st =
           call_render eng (arg 0 args) (arg 1 args) (JStr (toLowerCase s)) (arg 3 args) st"
  using assms by (simp add: renderArgs_def Let_def)

lemma renderArgs_falsy:
  assumes "\<not> truthy (arg 2 args)"
  shows "renderArgs eng args st = call_render eng (arg 0 args) (arg 1 args) Null (arg 3 args) st"
  using assms by (simp add: renderArgs_def Let_def)

lemma demo_rejects: "rejects_unrecognized (demo n) (Error ''unsupported format'')"
  by (simp add: rejects_unrecognized_def demo_eng_render demo_render_def)

text \<open>
  C8, as amended. A call in the positional shape whose third argument is a non-empty
  string: the engine's render is called once, with the string in lowercase (no letter
  \<^verbatim>\<open>A\<close> to \<^verbatim>\<open>Z\<close> is left in it) and the other arguments as given, and its outcome
  is the outcome of the call. So with an engine that throws \<open>unsupported\<close> for a format
  string outside its set, the call throws \<open>unsupported\<close> when the lowercased string is
  not in the set.
\<close>

theorem positional_format_lowercased:
  assumes "arg 2 args = JStr s" and "s \<noteq> []"
  shows "render eng args st =
           Some (call_render eng (arg 0 args) (arg 1 args) (JStr (toLowerCase s)) (arg 3 args) st) \<and>
         (\<forall>c \<in> set (toLowerCase s). c \<notin> set ''ABCDEFGHIJKLMNOPQRSTUVWXYZ'') \<and>
         (rejects_unrecognized eng unsupported \<longrightarrow> toLowerCase s \<notin> set engine_formats \<longrightarrow>
            map_option fst (render eng args st) = Some (Inl unsupported))"
proof -
  from assms(1) have "2 < length args"
    by (intro arg_length) simp
  then have "render eng args st = Some (renderArgs eng args st)"
    by (intro render_positional) simp
  with assms have r: "render eng args st =
      Some (call_render eng (arg 0 args) (arg 1 args) (JStr (toLowerCase s)) (arg 3 args) st)"
    by (simp add: renderArgs_string)
  have "map_option fst (render eng args st) = Some (Inl unsupported)"
    if "rejects_unrecognized eng unsupported" and "toLowerCase s \<notin> set engine_formats"
    using that r by (simp add: rejects_unrecognized_def call_render_def split: prod.splits)
       (metis fst_conv)
  with r toLowerCase_no_upper [of s] show ?thesis
    by blast
qed

theorem positional_format_lowercased_witness:
  "arg 2 [JNum 10, JNum 10, JStr ''PNG'', Undefined] = JStr ''PNG'' \<and>
   render (demo 100) [JNum 10, JNum 10, JStr ''PNG'', Undefined] \<lparr>handle = 0, calls = []\<rparr> =
     Some (Inr \<lparr>img_data = [], img_format = ''png'', img_width = 100, img_height = 100\<rparr>,
           \<lparr>handle = 1, calls = [CRender (JNum 10) (JNum 10) (JStr ''png'') Undefined]\<rparr>) \<and>
   arg 2 [JNum 10, JNum 10, JStr ''Jpeg'', Undefined] = JStr ''Jpeg'' \<and>
   rejects_unrecognized (demo 100) (Error ''unsupported format'') \<and>
   toLowerCase ''Jpeg'' \<notin> set engine_formats \<and>
   map_option fst
     (render (demo 100) [JNum 10, JNum 10, JStr ''Jpeg'', Undefined] \<lparr>handle = 0, calls = []\<rparr>) =
     Some (Inl (Error ''unsupported format''))"
proof -
  let ?init = "\<lparr>handle = 0::nat, calls = []\<rparr>"
  have a1: "arg 2 [JNum 10, JNum 10, JStr ''PNG'', Undefined] = JStr ''PNG''"
    and a2: "arg 2 [JNum 10, JNum 10, JStr ''Jpeg'', Undefined] = JStr ''Jpeg''"
    by (simp_all add: arg_def)
  have n1: "''PNG'' \<noteq> []" and n2: "''Jpeg'' \<noteq> []"
    by simp_all
  have low: "toLowerCase ''PNG'' = ''png''" "toLowerCase ''Jpeg'' = ''jpeg''"
    by (simp_all add: toLowerCase_def lower_char_def)
  have unknown: "toLowerCase ''Jpeg'' \<notin> set engine_formats"
    by (simp add: low engine_formats_def)
  from positional_format_lowercased [OF a1 n1, of "demo 100" ?init]
  have "render (demo 100) [JNum 10, JNum 10, JStr ''PNG'', Undefined] ?init =
          Some (call_render (demo 100) (arg 0 [JNum 10, JNum 10, JStr ''PNG'', Undefined])
                  (arg 1 [JNum 10, JNum 10, JStr ''PNG'', Undefined]) (JStr (toLowerCase ''PNG''))
                  (arg 3 [JNum 10, JNum 10, JStr ''PNG'', Undefined]) ?init)"
    by (rule conjunct1)
  then have png: "render (demo 100) [JNum 10, JNum 10, JStr ''PNG'', Undefined] ?init =
     Some (Inr \<lparr>img_data = [], img_format = ''png'', img_width = 100, img_height = 100\<rparr>,
           \<lparr>handle = 1, calls = [CRender (JNum 10) (JNum 10) (JStr ''png'') Undefined]\<rparr>)"
    by (simp add: low arg_def demo_call_render demo_render_def engine_formats_def)
  from positional_format_lowercased [OF a2 n2, of "demo 100" ?init "Error ''unsupported format''"]
    demo_rejects [of 100] unknown
  have jpeg: "map_option fst (render (demo 100) [JNum 10, JNum 10, JStr ''Jpeg'', Undefined] ?init) =
     Some (Inl (Error ''unsupported format''))"
    by blast
  from a1 png a2 demo_rejects [of 100] unknown jpeg show ?thesis
    by (intro conjI)
qed

text \<open>
  C8 as the spec states it fails for the empty string, which is a string, not
  \<^verbatim>\<open>null\<close>, and falsy: \<^verbatim>\<open>_renderArgs\<close> hands \<^verbatim>\<open>null\<close> to the engine, not the
  (unrecognized) empty format string, and the sample engine, which refuses every
  unrecognized format string, renders.
\<close>

theorem positional_empty_format_counterexample:
  "render (demo 100) [JNum 10, JNum 10, JStr [], Undefined] \<lparr>handle = 1, calls = []\<rparr> =
     Some (Inr \<lparr>img_data = [1, 2, 3], img_format = ''raw'', img_width = 100, img_height = 100\<rparr>,
           \<lparr>handle = 2, calls = [CRender (JNum 10) (JNum 10) Null Undefined]\<rparr>) \<and>
   render (demo 100) [JNum 10, JNum 10, JStr [], Undefined] \<lparr>handle = 1, calls = []\<rparr> \<noteq>
     Some (call_render (demo 100) (JNum 10) (JNum 10) (JStr (toLowerCase [])) Undefined
             \<lparr>handle = 1, calls = []\<rparr>) \<and>
   toLowerCase [] \<notin> set engine_formats \<and>
   rejects_unrecognized (demo 100) (Error ''unsupported format'')"
proof -
  have "render (demo 100) [JNum 10, JNum 10, JStr [], Undefined] \<lparr>handle = 1, calls = []\<rparr> =
     Some (Inr \<lparr>img_data = [1, 2, 3], img_format = ''raw'', img_width = 100, img_height = 100\<rparr>,
           \<lparr>handle = 2, calls = [CRender (JNum 10) (JNum 10) Null Undefined]\<rparr>)"
    by (simp add: render_positional renderArgs_def arg_def demo_call_render demo_render_def)
  moreover have "call_render (demo 100) (JNum 10) (JNum 10) (JStr (toLowerCase [])) Undefined
             \<lparr>handle = 1, calls = []\<rparr> =
      (Inl (Error ''unsupported format''),
       \<lparr>handle = 1, calls = [CRender (JNum 10) (JNum 10) (JStr []) Undefined]\<rparr>)"
    by (simp add: toLowerCase_def demo_call_render demo_render_def engine_formats_def)
  moreover have "toLowerCase [] \<notin> set engine_formats"
    by (simp add: toLowerCase_def engine_formats_def)
  ultimately show ?thesis
    using demo_rejects [of 100] by simp
qed

section \<open>The legacy call shapes\<close>

lemma helper_without_id:
  "render eng [JObj [(''format'', f), (''width'', w), (''height'', h), (''element'', Undefined)]] st =
   render eng [JObj [(''format'', f), (''width'', w), (''height'', h), (''id'', Undefined)]] st"
  by (rule render_same_request) (simp_all add: same_request_def or_empty_def)

lemma positional_four: "render eng [w, h, f, i] st = Some (renderArgs eng [w, h, f, i] st)"
  by (rule render_positional) simp

lemma renderArgs_lowercase_format:
  assumes "f = Null \<or> (\<exists>s. f = JStr s \<and> s \<noteq> [] \<and> toLowerCase s = s)"
  shows "renderArgs eng [w, h, f, i] st = call_render eng w h f i st"
  using assms by (auto simp: renderArgs_def arg_def Let_def)

lemma canonical_without_retry:
  assumes "call_render eng w h f i st = (r, st1)"
    and "\<forall>img. r = Inr img \<longrightarrow>
           \<not> (0 < eng_getWidth eng (handle st1) + eng_getHeight eng (handle st1) \<and> img_data img = [])"
  shows "render eng [JObj [(''format'', f), (''width'', w), (''height'', h), (''id'', i)]] st =
           Some (r, if isl r then st1 else size_read st1)"
  using assms by (cases r) (auto simp: render_canonical or_empty_def)

text \<open>
  C1, as amended. Each of the four helpers, called with a width and a height and no
  subelement id, is \<^verbatim>\<open>render\<close> called with the options object of that format, width
  and height (and no id): the same outcome, the same engine calls and the same retries.
  The positional call \<^verbatim>\<open>render(width, height, format, id)\<close> is one call of
  \<^verbatim>\<open>_renderArgs\<close>, without retry. When its format is \<^verbatim>\<open>null\<close> or a non-empty
  string already in lowercase, that is one engine call with the four arguments as given;
  and when the outcome of that engine call is an exception, a non-empty payload, or the
  payload of a document whose width plus height is not positive, \<^verbatim>\<open>render\<close> called
  with the options object of the four values returns the same outcome, after the same
  engine call and the two size reads.
\<close>

theorem legacy_shapes_agree:
  "renderRaw eng w h Undefined st =
     render eng [JObj [(''format'', JStr ''raw''), (''width'', w), (''height'', h), (''id'', Undefined)]] st \<and>
   renderPNG eng w h Undefined st =
     render eng [JObj [(''format'', JStr ''png''), (''width'', w), (''height'', h), (''id'', Undefined)]] st \<and>
   renderPDF eng w h Undefined st =
     render eng [JObj [(''format'', JStr ''pdf''), (''width'', w), (''height'', h), (''id'', Undefined)]] st \<and>
   renderSVG eng w h Undefined st =
     render eng [JObj [(''format'', JStr ''svg''), (''width'', w), (''height'', h), (''id'', Undefined)]] st \<and>
   render eng [w, h, f, i] st = Some (renderArgs eng [w, h, f, i] st) \<and>
   (f = Null \<or> (\<exists>s. f = JStr s \<and> s \<noteq> [] \<and> toLowerCase s = s) \<longrightarrow>
      render eng [w, h, f, i] st = Some (call_render eng w h f i st) \<and>
      (\<forall>r st1. call_render eng w h f i st = (r, st1) \<longrightarrow>
         (\<forall>img. r = Inr img \<longrightarrow>
            \<not> (0 < eng_getWidth eng (handle st1) + eng_getHeight eng (handle st1)
                \<and> img_data img = [])) \<longrightarrow>
         render eng [JObj [(''format'', f), (''width'', w), (''height'', h), (''id'', i)]] st =
           Some (r, if isl r then st1 else size_read st1)))"
proof (intro conjI impI allI)
  show "renderRaw eng w h Undefined st =
     render eng [JObj [(''format'', JStr ''raw''), (''width'', w), (''height'', h), (''id'', Undefined)]] st"
    unfolding renderRaw_def by (rule helper_without_id)
  show "renderPNG eng w h Undefined st =
     render eng [JObj [(''format'', JStr ''png''), (''width'', w), (''height'', h), (''id'', Undefined)]] st"
    unfolding renderPNG_def by (rule helper_without_id)
  show "renderPDF eng w h Undefined st =
     render eng [JObj [(''format'', JStr ''pdf''), (''width'', w), (''height'', h), (''id'', Undefined)]] st"
    unfolding renderPDF_def by (rule helper_without_id)
  show "renderSVG eng w h Undefined st =
     render eng [JObj [(''format'', JStr ''svg''), (''width'', w), (''height'', h), (''id'', Undefined)]] st"
    unfolding renderSVG_def by (rule helper_without_id)
  show "render eng [w, h, f, i] st = Some (renderArgs eng [w, h, f, i] st)"
    by (rule positional_four)
next
  assume "f = Null \<or> (\<exists>s. f = JStr s \<and> s \<noteq> [] \<and> toLowerCase s = s)"
  then show "render eng [w, h, f, i] st = Some (call_render eng w h f i st)"
    by (simp only: positional_four renderArgs_lowercase_format)
next
  fix r st1
  assume "call_render eng w h f i st = (r, st1)"
    and "\<forall>img. r = Inr img \<longrightarrow>
           \<not> (0 < eng_getWidth eng (handle st1) + eng_getHeight eng (handle st1) \<and> img_data img = [])"
  then show "render eng [JObj [(''format'', f), (''width'', w), (''height'', h), (''id'', i)]] st =
           Some (r, if isl r then st1 else size_read st1)"
    by (rule canonical_without_retry)
qed

theorem legacy_shapes_agree_witness:
  "renderPNG (demo 100) (JNum 10) (JNum 10) Undefined \<lparr>handle = 0, calls = []\<rparr> =
     render (demo 100)
       [JObj [(''format'', JStr ''png''), (''width'', JNum 10), (''height'', JNum 10), (''id'', Undefined)]]
       \<lparr>handle = 0, calls = []\<rparr> \<and>
   renderPNG (demo 100) (JNum 10) (JNum 10) Undefined \<lparr>handle = 0, calls = []\<rparr> =
     Some (Inr \<lparr>img_data = [1, 2, 3], img_format = ''png'', img_width = 100, img_height = 100\<rparr>,
           \<lparr>handle = 2,
            calls = [CRender (JNum 10) (JNum 10) (JStr ''png'') Undefined, CGetWidth, CGetHeight,
                     CRender (JNum 10) (JNum 10) (JStr ''png'') Undefined, CGetWidth, CGetHeight]\<rparr>) \<and>
   toLowerCase ''png'' = ''png'' \<and>
   render (demo 100) [JNum 10, JNum 10, JStr ''png'', JStr ''#a''] \<lparr>handle = 1, calls = []\<rparr> =
     Some (Inr \<lparr>img_data = [4], img_format = ''png'', img_width = 100, img_height = 100\<rparr>,
           \<lparr>handle = 2, calls = [CRender (JNum 10) (JNum 10) (JStr ''png'') (JStr ''#a'')]\<rparr>) \<and>
   render (demo 100)
       [JObj [(''format'', JStr ''png''), (''width'', JNum 10), (''height'', JNum 10), (''id'', JStr ''#a'')]]
       \<lparr>handle = 1, calls = []\<rparr> =
     Some (Inr \<lparr>img_data = [4], img_format = ''png'', img_width = 100, img_height = 100\<rparr>,
           \<lparr>handle = 2,
            calls = [CRender (JNum 10) (JNum 10) (JStr ''png'') (JStr ''#a''), CGetWidth, CGetHeight]\<rparr>)"
proof -
  let ?fresh = "\<lparr>handle = 0::nat, calls = []\<rparr>"
  let ?used = "\<lparr>handle = 1::nat, calls = []\<rparr>"
  let ?image = "\<lparr>img_data = [4], img_format = ''png'', img_width = 100, img_height = 100\<rparr>"
  let ?after = "\<lparr>handle = 2::nat, calls = [CRender (JNum 10) (JNum 10) (JStr ''png'') (JStr ''#a'')]\<rparr>"
  note inst0 = legacy_shapes_agree [of "demo 100" "JNum 10" "JNum 10" ?fresh "JStr ''png''" "JStr ''#a''"]
  note inst = legacy_shapes_agree [of "demo 100" "JNum 10" "JNum 10" ?used "JStr ''png''" "JStr ''#a''"]
  have low: "toLowerCase ''png'' = ''png''"
    by (simp add: toLowerCase_def lower_char_def)
  then have fmt: "JStr ''png'' = Null \<or> (\<exists>s. JStr ''png'' = JStr s \<and> s \<noteq> [] \<and> toLowerCase s = s)"
    by simp
  have call: "call_render (demo 100) (JNum 10) (JNum 10) (JStr ''png'') (JStr ''#a'') ?used = (Inr ?image, ?after)"
    by (simp add: demo_call_render demo_render_def engine_formats_def)
  have quiet: "\<forall>img. Inr ?image = (Inr img :: error + render_result) \<longrightarrow>
           \<not> (0 < eng_getWidth (demo 100) (handle ?after) + eng_getHeight (demo 100) (handle ?after)
              \<and> img_data img = [])"
    by auto
  from inst0 [THEN conjunct2, THEN conjunct1] have helper:
    "renderPNG (demo 100) (JNum 10) (JNum 10) Undefined ?fresh =
     render (demo 100)
       [JObj [(''format'', JStr ''png''), (''width'', JNum 10), (''height'', JNum 10), (''id'', Undefined)]]
       ?fresh"
    .
  have helper_value:
    "render (demo 100)
       [JObj [(''format'', JStr ''png''), (''width'', JNum 10), (''height'', JNum 10), (''id'', Undefined)]]
       ?fresh =
     Some (Inr \<lparr>img_data = [1, 2, 3], img_format = ''png'', img_width = 100, img_height = 100\<rparr>,
           \<lparr>handle = 2,
            calls = [CRender (JNum 10) (JNum 10) (JStr ''png'') Undefined, CGetWidth, CGetHeight,
                     CRender (JNum 10) (JNum 10) (JStr ''png'') Undefined, CGetWidth, CGetHeight]\<rparr>)"
    by (simp add: render_canonical or_empty_def demo_call_render demo_render_def engine_formats_def
                  demo_size size_read_record)
  note last = inst [THEN conjunct2, THEN conjunct2, THEN conjunct2, THEN conjunct2, THEN conjunct2,
                    THEN mp, OF fmt]
  from last [THEN conjunct1] call have positional:
    "render (demo 100) [JNum 10, JNum 10, JStr ''png'', JStr ''#a''] ?used = Some (Inr ?image, ?after)"
    by simp
  from last [THEN conjunct2, THEN spec, THEN spec, THEN mp, THEN mp, OF call quiet] have
    "render (demo 100)
       [JObj [(''format'', JStr ''png''), (''width'', JNum 10), (''height'', JNum 10), (''id'', JStr ''#a'')]]
       ?used =
     Some (Inr ?image, if isl (Inr ?image :: error + render_result) then ?after else size_read ?after)"
    .
  then have canonical:
    "render (demo 100)
       [JObj [(''format'', JStr ''png''), (''width'', JNum 10), (''height'', JNum 10), (''id'', JStr ''#a'')]]
       ?used =
     Some (Inr ?image,
           \<lparr>handle = 2,
            calls = [CRender (JNum 10) (JNum 10) (JStr ''png'') (JStr ''#a''), CGetWidth, CGetHeight]\<rparr>)"
    by (simp add: size_read_record)
  from helper helper_value have helper_value':
    "renderPNG (demo 100) (JNum 10) (JNum 10) Undefined ?fresh =
     Some (Inr \<lparr>img_data = [1, 2, 3], img_format = ''png'', img_width = 100, img_height = 100\<rparr>,
           \<lparr>handle = 2,
            calls = [CRender (JNum 10) (JNum 10) (JStr ''png'') Undefined, CGetWidth, CGetHeight,
                     CRender (JNum 10) (JNum 10) (JStr ''png'') Undefined, CGetWidth, CGetHeight]\<rparr>)"
    by (rule trans)
  from helper helper_value' low positional canonical show ?thesis
    by (intro conjI)
qed

lemma demo_positional_png:
  "render (demo 100) [JNum 10, JNum 10, JStr ''png'', Undefined] \<lparr>handle = 0, calls = []\<rparr> =
     Some (Inr \<lparr>img_data = [], img_format = ''png'', img_width = 100, img_height = 100\<rparr>,
           \<lparr>handle = 1, calls = [CRender (JNum 10) (JNum 10) (JStr ''png'') Undefined]\<rparr>)"
  by (simp add: render_positional renderArgs_def arg_def toLowerCase_def lower_char_def
                demo_call_render demo_render_def engine_formats_def)

lemma demo_canonical_png:
  "render (demo 100)
     [JObj [(''format'', JStr ''png''), (''width'', JNum 10), (''height'', JNum 10), (''id'', Undefined)]]
     \<lparr>handle = 0, calls = []\<rparr> =
   Some (Inr \<lparr>img_data = [1, 2, 3], img_format = ''png'', img_width = 100, img_height = 100\<rparr>,
         \<lparr>handle = 2,
          calls = [CRender (JNum 10) (JNum 10) (JStr ''png'') Undefined, CGetWidth, CGetHeight,
                   CRender (JNum 10) (JNum 10) (JStr ''png'') Undefined, CGetWidth, CGetHeight]\<rparr>)"
  by (simp add: render_canonical or_empty_def demo_call_render demo_render_def engine_formats_def
                demo_size size_read_record)

lemma demo_canonical_png_id:
  "render (demo 100)
     [JObj [(''format'', JStr ''png''), (''width'', JNum 10), (''height'', JNum 10), (''id'', JStr ''#a'')]]
     \<lparr>handle = 0, calls = []\<rparr> =
   Some (Inr \<lparr>img_data = [4], img_format = ''png'', img_width = 100, img_height = 100\<rparr>,
         \<lparr>handle = 2,
          calls = [CRender (JNum 10) (JNum 10) (JStr ''png'') (JStr ''#a''), CGetWidth, CGetHeight,
                   CRender (JNum 10) (JNum 10) (JStr ''png'') (JStr ''#a''), CGetWidth, CGetHeight]\<rparr>)"
  by (simp add: render_canonical or_empty_def demo_call_render demo_render_def engine_formats_def
                demo_size size_read_record)

lemma demo_renderPNG_id:
  "renderPNG (demo 100) (JNum 10) (JNum 10) (JStr ''#a'') \<lparr>handle = 0, calls = []\<rparr> =
   Some (Inr \<lparr>img_data = [1, 2, 3], img_format = ''png'', img_width = 100, img_height = 100\<rparr>,
         \<lparr>handle = 2,
          calls = [CRender (JNum 10) (JNum 10) (JStr ''png'') Undefined, CGetWidth, CGetHeight,
                   CRender (JNum 10) (JNum 10) (JStr ''png'') Undefined, CGetWidth, CGetHeight]\<rparr>)"
  by (simp add: renderPNG_def render_canonical or_empty_def demo_call_render demo_render_def
                engine_formats_def demo_size size_read_record)

text \<open>
  C1 as the spec states it fails on the sample engine. On a fresh handle the engine's
  first render returns an empty payload: the positional call returns it, the call with
  the options object of the same four values retries and returns three bytes. And
  \<^verbatim>\<open>renderPNG\<close> with a subelement id stores the id under \<^verbatim>\<open>element\<close>, which
  \<^verbatim>\<open>render\<close> does not read: it renders the whole document (three bytes), the call with
  the options object of the same format, width, height and id the subelement (one byte).
\<close>

theorem legacy_shapes_counterexample:
  "map_option fst
     (render (demo 100) [JNum 10, JNum 10, JStr ''png'', Undefined] \<lparr>handle = 0, calls = []\<rparr>) \<noteq>
   map_option fst
     (render (demo 100)
        [JObj [(''format'', JStr ''png''), (''width'', JNum 10), (''height'', JNum 10), (''id'', Undefined)]]
        \<lparr>handle = 0, calls = []\<rparr>) \<and>
   map_option fst
     (renderPNG (demo 100) (JNum 10) (JNum 10) (JStr ''#a'') \<lparr>handle = 0, calls = []\<rparr>) \<noteq>
   map_option fst
     (render (demo 100)
        [JObj [(''format'', JStr ''png''), (''width'', JNum 10), (''height'', JNum 10), (''id'', JStr ''#a'')]]
        \<lparr>handle = 0, calls = []\<rparr>)"
  by (simp add: demo_positional_png demo_canonical_png demo_canonical_png_id demo_renderPNG_id)

end
